theory Spec2Isabelle
  imports Main "HOL-Library.Sublist"
begin

section \<open>Python values used by logpool\<close>

text \<open>
  The embedding follows \<^verbatim>\<open>src/logpool/log.py\<close> (class \<^verbatim>\<open>ControlThreads\<close>, the
  completion hook \<^verbatim>\<open>worker_callbacks\<close> and the module-level singleton \<^verbatim>\<open>control\<close>) and,
  for \<^verbatim>\<open>finishLog\<close> only, the legacy module \<^verbatim>\<open>src/log.py\<close>.

  Objects live in an explicit store: a \<^verbatim>\<open>ControlThreads\<close> object is an index into the list
  \<open>objs\<close>, an executor an index into the list \<open>executors\<close>, a future an index into the
  list \<open>futures\<close>. The console, the file system and the
  calls made to external callbacks are components of the same store, so that every side
  effect of a method is visible in the state it returns.
\<close>

datatype error =
    KeyError string
  | ValueError string
  | TypeError string
  | RuntimeError string
  | BrokenProcessPool string

text \<open>A dict with string keys, in insertion order.\<close>

type_synonym ('k, 'v) dict = "('k \<times> 'v) list"

fun dict_get :: "('k, 'v) dict \<Rightarrow> 'k \<Rightarrow> 'v option" where
  "dict_get [] k = None"
| "dict_get ((k', v) # d) k = (if k' = k then Some v else dict_get d k)"

fun dict_set :: "'k \<Rightarrow> 'v \<Rightarrow> ('k, 'v) dict \<Rightarrow> ('k, 'v) dict" where
  "dict_set k v [] = [(k, v)]"
| "dict_set k v ((k', v') # d) = (if k' = k then (k, v) # d else (k', v') # dict_set k v d)"

text \<open>\<^verbatim>\<open>f"{n}"\<close> for a non-negative integer: its decimal digits.\<close>

fun str_nat :: "nat \<Rightarrow> string" where
  "str_nat n = (if n < 10 then [char_of (48 + n)] else str_nat (n div 10) @ [char_of (48 + n mod 10)])"

declare str_nat.simps [simp del]

text \<open>\<^verbatim>\<open>os.path.basename\<close>: what follows the last slash.\<close>

definition basename :: "string \<Rightarrow> string" where
  "basename p = rev (takeWhile (\<lambda>c. c \<noteq> CHR ''/'') (rev p))"

text \<open>Truth value of a tuple: a tuple is true unless it is empty.\<close>

definition truthy :: "'a list \<Rightarrow> bool" where
  "truthy t = (t \<noteq> [])"

subsection \<open>Code objects, tracebacks, exceptions\<close>

record code =
  co_filename :: string
  co_name :: string

text \<open>One link of a traceback chain: \<^verbatim>\<open>tb.tb_frame.f_code\<close> and \<^verbatim>\<open>tb.tb_lineno\<close>; the chain
  linked by \<^verbatim>\<open>tb_next\<close> is a list, the raise site last.\<close>

record tb =
  f_code :: code
  tb_lineno :: nat

text \<open>What becomes of an exception that a worker process sends to its parent: it is
  pickled and rebuilt there; or pickling it raises an error, with the given type name and
  message, which is sent in its place; or it is pickled, and rebuilding it in the parent
  raises.\<close>

datatype crossing = Crosses | Pickling_fails string string | Rebuilding_fails

text \<open>An exception: \<^verbatim>\<open>type(e).__name__\<close>, \<^verbatim>\<open>str(e)\<close>, \<^verbatim>\<open>e.__traceback__\<close>, and how it crosses a
  process boundary.\<close>

datatype exn = Exn (type_name: string) (str_of: string) (traceback: "tb list") (crossing: crossing)

text \<open>What calling the submitted function with its arguments does: return a value or raise.\<close>

datatype outcome = Returned int | Raised exn

subsection \<open>Futures and executors of \<^verbatim>\<open>concurrent.futures\<close>\<close>

text \<open>
  The standard library is not part of the repository; the fragment the module relies on
  is written here after \<^verbatim>\<open>concurrent/futures/thread.py\<close> and \<^verbatim>\<open>process.py\<close> of CPython 3.11.
  A future carries the work it was submitted with (what the call does where it runs), the
  executor it was submitted to, what it holds (nothing while pending or running; the
  result or the exception once finished), and whether \<^verbatim>\<open>worker_callbacks\<close> was registered
  with \<^verbatim>\<open>add_done_callback\<close>. The callable and its arguments are taken to reach the worker;
  a returned value is an integer, which always travels back.
\<close>

record future =
  task :: outcome
  pool :: nat
  state :: "outcome option"
  hooked :: bool

text \<open>\<^verbatim>\<open>Future.done()\<close>.\<close>

definition done_f :: "future \<Rightarrow> bool" where
  "done_f f = (state f \<noteq> None)"

text \<open>\<^verbatim>\<open>Future.exception()\<close> of a finished future (the hook only ever sees finished ones).\<close>

definition exception :: "future \<Rightarrow> exn option" where
  "exception f = (case state f of Some (Raised e) \<Rightarrow> Some e | _ \<Rightarrow> None)"

text \<open>An executor: thread-based or process-based, its worker count, whether it was shut
  down, and whether it is broken (a process pool whose result pipe failed).\<close>

record executor =
  process_pool :: bool
  max_workers :: int
  is_shutdown :: bool
  broken :: bool

text \<open>\<^verbatim>\<open>ThreadPoolExecutor(n)\<close> and \<^verbatim>\<open>ProcessPoolExecutor(n)\<close> both refuse \<open>n \<le> 0\<close>.\<close>

definition new_executor :: "bool \<Rightarrow> int \<Rightarrow> error + executor" where
  "new_executor use_pp n =
     (if n \<le> 0 then Inl (ValueError ''max_workers must be greater than 0'')
      else Inr \<lparr>process_pool = use_pp, max_workers = n, is_shutdown = False, broken = False\<rparr>)"

text \<open>What the parent process receives for the outcome of a call made in a worker
  process. A result travels as it is. An exception is sent with \<^verbatim>\<open>__traceback__\<close> set to
  \<^verbatim>\<open>None\<close>; when pickling it fails the pickling error is sent instead, likewise without
  traceback; when it cannot be rebuilt the parent receives nothing.\<close>

fun sent :: "outcome \<Rightarrow> outcome option" where
  "sent (Returned v) = Some (Returned v)"
| "sent (Raised e) =
     (case crossing e of
        Crosses \<Rightarrow> Some (Raised (Exn (type_name e) (str_of e) [] Crosses))
      | Pickling_fails t m \<Rightarrow> Some (Raised (Exn t m [] Crosses))
      | Rebuilding_fails \<Rightarrow> None)"

text \<open>The exception every pending future of a broken process pool is given.\<close>

definition bpe :: exn where
  "bpe = Exn ''BrokenProcessPool''
     ''A process in the process pool was terminated abruptly while the future was running or pending.''
     [] Crosses"

section \<open>The state\<close>

text \<open>The attributes \<^verbatim>\<open>__init__\<close> assigns. \<open>simple_log\<close> is a tuple, because the source
  assigns \<^verbatim>\<open>simple_log,\<close> with a trailing comma. A callback is identified by a number; the
  strings it is called with are recorded in the store. The executor is a reference into
  the store's list of executors: an executor outlives the object's use of it, with the
  futures submitted to it.\<close>

record ControlThreads =
  tasks :: "(string, nat list) dict"
  log_file :: "string option"
  workers :: int
  print_log :: bool
  debug_mode :: bool
  use_process_pool :: bool
  simple_log :: "bool list"
  callback :: "nat option"
  keep_in_memory :: bool
  memory :: "string list"
  executor :: nat

type_synonym fs = "(string, string) dict"

record world =
  objs :: "ControlThreads list"
  executors :: "executor list"
  futures :: "future list"
  console :: "string list"
  files :: fs
  cb_calls :: "(nat \<times> string) list"
  slept :: nat

text \<open>The module-level singleton \<^verbatim>\<open>control\<close> is the first object the module creates.\<close>

definition control :: nat where
  "control = 0"

definition upd_obj :: "nat \<Rightarrow> (ControlThreads \<Rightarrow> ControlThreads) \<Rightarrow> world \<Rightarrow> world" where
  "upd_obj self f w = w\<lparr>objs := (objs w)[self := f (objs w ! self)]\<rparr>"

text \<open>Opening a file for appending creates it when absent; writing appends.\<close>

definition fs_append :: "string \<Rightarrow> string \<Rightarrow> fs \<Rightarrow> fs" where
  "fs_append p s fs = dict_set p (case dict_get fs p of None \<Rightarrow> s | Some old \<Rightarrow> old @ s) fs"

text \<open>Opening a file for writing creates or truncates it.\<close>

definition fs_truncate :: "string \<Rightarrow> fs \<Rightarrow> fs" where
  "fs_truncate p fs = dict_set p [] fs"

section \<open>Construction and reconfiguration\<close>

text \<open>The keyword arguments of \<^verbatim>\<open>__init__\<close>.\<close>

record args =
  a_log_file :: "string option"
  a_print_log :: bool
  a_debug :: bool
  a_max_workers :: int
  a_use_process_pool :: bool
  a_keep_in_memory :: bool
  a_simple_log :: bool
  a_callback :: "nat option"

text \<open>The default of \<^verbatim>\<open>max_workers\<close>: \<^verbatim>\<open>psutil.cpu_count(logical=True) - 2\<close>, evaluated when the
  class is defined. The argument is the host's logical CPU count.\<close>

definition default_max_workers :: "int \<Rightarrow> int" where
  "default_max_workers cpu = cpu - 2"

definition default_args :: "int \<Rightarrow> args" where
  "default_args cpu =
     \<lparr>a_log_file = None, a_print_log = True, a_debug = False,
      a_max_workers = default_max_workers cpu, a_use_process_pool = False,
      a_keep_in_memory = False, a_simple_log = False, a_callback = None\<rparr>"

definition init_log :: "string \<Rightarrow> world \<Rightarrow> world" where
  "init_log p w = w\<lparr>files := fs_append p [] (files w)\<rparr>"

text \<open>The assignments of \<^verbatim>\<open>__init__\<close> up to its last line; the executor slot keeps what it
  is given until the last line replaces it.\<close>

definition init_fields :: "args \<Rightarrow> nat \<Rightarrow> ControlThreads" where
  "init_fields a ex =
     \<lparr>tasks = [(''default'', [])],
      log_file = a_log_file a,
      workers = a_max_workers a,
      print_log = a_print_log a,
      debug_mode = a_debug a,
      use_process_pool = a_use_process_pool a,
      simple_log = [a_simple_log a],
      callback = a_callback a,
      keep_in_memory = a_keep_in_memory a,
      memory = [],
      executor = ex\<rparr>"

text \<open>\<^verbatim>\<open>ControlThreads(...)\<close>: a new object, unless creating the executor raises.\<close>

definition construct :: "args \<Rightarrow> world \<Rightarrow> (error + nat) \<times> world" where
  "construct a w =
     (let w1 = (case a_log_file a of None \<Rightarrow> w | Some p \<Rightarrow> init_log p w)
      in case new_executor (a_use_process_pool a) (a_max_workers a) of
           Inl e \<Rightarrow> (Inl e, w1)
         | Inr ex \<Rightarrow>
             (Inr (length (objs w1)),
              w1\<lparr>objs := objs w1 @ [init_fields a (length (executors w1))],
                 executors := executors w1 @ [ex]\<rparr>))"

text \<open>\<^verbatim>\<open>reconfigure\<close>: shut the executor down without waiting, then run \<^verbatim>\<open>__init__\<close> again on
  the same object. When the new executor cannot be created the object keeps the old,
  shut-down one, with every other attribute already reassigned.\<close>

definition reconfigure :: "nat \<Rightarrow> args \<Rightarrow> world \<Rightarrow> (error + unit) \<times> world" where
  "reconfigure self a w =
     (let old = executor (objs w ! self);
          w0 = w\<lparr>executors := (executors w)[old := (executors w ! old)\<lparr>is_shutdown := True\<rparr>]\<rparr>;
          w1 = (case a_log_file a of None \<Rightarrow> w0 | Some p \<Rightarrow> init_log p w0)
      in case new_executor (a_use_process_pool a) (a_max_workers a) of
           Inl e \<Rightarrow> (Inl e, upd_obj self (\<lambda>_. init_fields a old) w1)
         | Inr ex \<Rightarrow>
             (Inr (),
              (upd_obj self (\<lambda>_. init_fields a (length (executors w1))) w1)
                \<lparr>executors := executors w1 @ [ex]\<rparr>))"

definition empty_world :: world where
  "empty_world =
     \<lparr>objs = [], executors = [], futures = [], console = [], files = [], cb_calls = [], slept = 0\<rparr>"

text \<open>Importing the module on a host with \<open>cpu\<close> logical CPUs runs its last line,
  \<^verbatim>\<open>control = ControlThreads(log_file=None, print_log=True, debug=True)\<close>.\<close>

definition load_module :: "int \<Rightarrow> (error + nat) \<times> world" where
  "load_module cpu = construct ((default_args cpu)\<lparr>a_print_log := True, a_debug := True\<rparr>) empty_world"

section \<open>Logging\<close>

text \<open>What \<^verbatim>\<open>wlog\<close> reads from its surroundings: the formatted clock
  \<^verbatim>\<open>datetime.now().strftime('%d/%m/%Y %H:%M:%S')\<close>, the code object two frames up
  (\<^verbatim>\<open>inspect.currentframe().f_back.f_back.f_code\<close>, the caller of \<^verbatim>\<open>info\<close>, \<^verbatim>\<open>warn\<close>, ...) and
  \<^verbatim>\<open>threading.current_thread().native_id\<close>.\<close>

record callctx =
  now :: string
  caller :: code
  native_id :: nat

text \<open>\<^verbatim>\<open>wlog(self, content, tipo, print_log=True)\<close>. The fourth parameter is the method's own
  \<^verbatim>\<open>print_log\<close>, not the attribute of the same name.\<close>

definition wlog :: "nat \<Rightarrow> string \<Rightarrow> string \<Rightarrow> bool \<Rightarrow> callctx \<Rightarrow> world \<Rightarrow> world" where
  "wlog self content tipo print_log_param ctx w =
     (let obj = objs w ! self;
          function = co_name (caller ctx);
          filename = co_filename (caller ctx);
          thread_id = native_id ctx;
          stamp = now ctx @ ''  '';
          log_message =
            (if tipo = ''[critical]'' then
               stamp @ tipo @ '' - Thread '' @ str_nat thread_id @ '' - '' @ content
             else if tipo = ''[time]'' then
               stamp @ tipo @ '' - '' @ content
             else if truthy (simple_log obj) then
               tipo @ '' - '' @ content
             else
               stamp @ tipo @ '' - '' @ basename filename @ '' - '' @ function @ ''() - '' @ content);
          w1 = (if print_log_param then w\<lparr>console := console w @ [log_message]\<rparr> else w);
          w2 = (if keep_in_memory obj
                then upd_obj self (\<lambda>ob. ob\<lparr>memory := memory ob @ [log_message]\<rparr>) w1 else w1);
          w3 = (case log_file obj of
                  None \<Rightarrow> w2
                | Some p \<Rightarrow> w2\<lparr>files := fs_append p (log_message @ [CHR 0x0A]) (files w2)\<rparr>);
          w4 = (case callback obj of
                  None \<Rightarrow> w3
                | Some cb \<Rightarrow> w3\<lparr>cb_calls := cb_calls w3 @ [(cb, log_message)]\<rparr>)
      in w4)"

definition info :: "nat \<Rightarrow> string \<Rightarrow> callctx \<Rightarrow> world \<Rightarrow> world" where
  "info self content ctx w = wlog self content ''[info]'' True ctx w"

definition time :: "nat \<Rightarrow> string \<Rightarrow> callctx \<Rightarrow> world \<Rightarrow> world" where
  "time self content ctx w = wlog self content ''[time]'' True ctx w"

definition warn :: "nat \<Rightarrow> string \<Rightarrow> callctx \<Rightarrow> world \<Rightarrow> world" where
  "warn self content ctx w = wlog self content ''[warning]'' True ctx w"

definition critical :: "nat \<Rightarrow> string \<Rightarrow> callctx \<Rightarrow> world \<Rightarrow> world" where
  "critical self content ctx w = wlog self content ''[critical]'' True ctx w"

definition debug :: "nat \<Rightarrow> string \<Rightarrow> callctx \<Rightarrow> world \<Rightarrow> world" where
  "debug self content ctx w =
     (if debug_mode (objs w ! self) then wlog self content ''[debug]'' True ctx w else w)"

text \<open>\<^verbatim>\<open>clear_logs\<close>: \<^verbatim>\<open>open(self.log_file, 'w')\<close>; with no log file, \<^verbatim>\<open>open(None, 'w')\<close> raises.\<close>

definition clear_logs :: "nat \<Rightarrow> world \<Rightarrow> (error + unit) \<times> world" where
  "clear_logs self w =
     (case log_file (objs w ! self) of
        None \<Rightarrow> (Inl (TypeError ''expected str, bytes or os.PathLike object, not NoneType''), w)
      | Some p \<Rightarrow> (Inr (), w\<lparr>files := fs_truncate p (files w)\<rparr>))"

section \<open>The completion hook\<close>

text \<open>The \<^verbatim>\<open>while tb is not None\<close> loop of \<^verbatim>\<open>worker_callbacks\<close>: one dict per link, here a
  triple (filename, name, lineno), appended to \<open>trace\<close>.\<close>

fun walk_tb :: "tb list \<Rightarrow> (string \<times> string \<times> nat) list \<Rightarrow> (string \<times> string \<times> nat) list" where
  "walk_tb [] trace = trace"
| "walk_tb (t # tb_next) trace =
     walk_tb tb_next (trace @ [(co_filename (f_code t), co_name (f_code t), tb_lineno t)])"

text \<open>The \<^verbatim>\<open>for key, i in enumerate(trace)\<close> loop, \<open>key\<close> counting from the first argument.\<close>

fun trace_loop :: "nat \<Rightarrow> (string \<times> string \<times> nat) list \<Rightarrow> string \<Rightarrow> string" where
  "trace_loop key [] trace_str = trace_str"
| "trace_loop key ((filename, name, lineno) # rest) trace_str =
     trace_loop (Suc key) rest
       (trace_str @ ''[Trace '' @ str_nat key @ '': '' @ filename @ '' - '' @ name @ ''() - line ''
          @ str_nat lineno @ '']'')"

text \<open>\<^verbatim>\<open>worker_callbacks(f)\<close>, run on a finished future. It logs through the module-level
  \<^verbatim>\<open>control\<close>, whichever object the future was submitted to.\<close>

definition worker_callbacks :: "future \<Rightarrow> callctx \<Rightarrow> world \<Rightarrow> world" where
  "worker_callbacks f ctx w =
     (case exception f of
        None \<Rightarrow> w
      | Some e \<Rightarrow>
          (let trace = walk_tb (traceback e) [];
               trace_str = trace_loop 0 trace []
           in critical control (type_name e @ '': '' @ str_of e @ '' -> '' @ trace_str) ctx w))"

section \<open>The pool\<close>

text \<open>\<^verbatim>\<open>submit(self, fn, *args, group="default", **kwargs)\<close>. The call \<^verbatim>\<open>fn(*args, **kwargs)\<close> is
  given by its outcome. A broken executor and a shut-down executor refuse the work, in
  this order. The method has no \<^verbatim>\<open>return\<close> statement: the value it returns is \<^verbatim>\<open>None\<close>,
  written \<open>None\<close> here, where \<open>Some h\<close> would be the future \<open>h\<close>.\<close>

definition submit :: "nat \<Rightarrow> outcome \<Rightarrow> string \<Rightarrow> world \<Rightarrow> (error + nat option) \<times> world" where
  "submit self fn grp w =
     (let obj = objs w ! self; ex = executors w ! executor obj in
      if broken ex then
        (Inl (BrokenProcessPool
               ''A child process terminated abruptly, the process pool is not usable anymore''), w)
      else if is_shutdown ex then
        (Inl (RuntimeError ''cannot schedule new futures after shutdown''), w)
      else
        (let future = length (futures w);
             w1 = w\<lparr>futures := futures w @
                    [\<lparr>task = fn, pool = executor obj, state = None, hooked = True\<rparr>]\<rparr>;
             tasks1 = (if dict_get (tasks obj) grp = None
                       then dict_set grp [] (tasks obj) else tasks obj);
             tasks2 = (case dict_get tasks1 grp of
                         None \<Rightarrow> tasks1
                       | Some hs \<Rightarrow> dict_set grp (hs @ [future]) tasks1)
         in (Inr None, upd_obj self (\<lambda>ob. ob\<lparr>tasks := tasks2\<rparr>) w1)))"

text \<open>\<^verbatim>\<open>Future.set_result\<close> and \<^verbatim>\<open>Future.set_exception\<close>: the future holds the outcome, then
  the registered callback runs, in the thread that finishes the future (a worker thread,
  or the manager thread of a process pool), whose clock and thread id are \<open>ctx\<close>.\<close>

definition finish :: "nat \<Rightarrow> outcome \<Rightarrow> callctx \<Rightarrow> world \<Rightarrow> world" where
  "finish h out ctx w =
     (let f = (futures w ! h)\<lparr>state := Some out\<rparr>;
          w1 = w\<lparr>futures := (futures w)[h := f]\<rparr>
      in if hooked f then worker_callbacks f ctx w1 else w1)"

text \<open>The futures of executor \<open>p\<close> that are still pending, in the order of submission,
  counting positions from \<open>i\<close>.\<close>

fun pending_in :: "nat \<Rightarrow> future list \<Rightarrow> nat \<Rightarrow> nat list" where
  "pending_in p [] i = []"
| "pending_in p (f # fs) i =
     (if pool f = p \<and> state f = None then i # pending_in p fs (Suc i)
      else pending_in p fs (Suc i))"

fun fail_all :: "nat list \<Rightarrow> callctx \<Rightarrow> world \<Rightarrow> world" where
  "fail_all [] ctx w = w"
| "fail_all (i # rest) ctx w = fail_all rest ctx (finish i (Raised bpe) ctx w)"

text \<open>\<^verbatim>\<open>terminate_broken\<close> of a process pool whose result pipe failed: the executor is marked
  broken and shut down, and every pending future of the pool is given the same
  \<^verbatim>\<open>BrokenProcessPool\<close> exception.\<close>

definition terminate_broken :: "nat \<Rightarrow> callctx \<Rightarrow> world \<Rightarrow> world" where
  "terminate_broken p ctx w =
     (let w1 = w\<lparr>executors :=
                  (executors w)[p := (executors w ! p)\<lparr>is_shutdown := True, broken := True\<rparr>]\<rparr>
      in fail_all (pending_in p (futures w1) 0) ctx w1)"

text \<open>What the future \<open>h\<close> is about to hold: in a thread pool the outcome of the call,
  exception and traceback as raised; in a process pool what the parent receives.\<close>

definition received :: "world \<Rightarrow> nat \<Rightarrow> outcome option" where
  "received w h =
     (let f = futures w ! h in
      if process_pool (executors w ! pool f) then sent (task f) else Some (task f))"

text \<open>The executor finishing with the work of future \<open>h\<close>. A future finishes once. When
  the parent of a process pool cannot rebuild what the worker sent, reading the result
  pipe fails and the pool is terminated as broken.\<close>

definition complete :: "nat \<Rightarrow> callctx \<Rightarrow> world \<Rightarrow> world" where
  "complete h ctx w =
     (if h < length (futures w) \<and> state (futures w ! h) = None then
        (case received w h of
           Some out \<Rightarrow> finish h out ctx w
         | None \<Rightarrow> terminate_broken (pool (futures w ! h)) ctx w)
      else w)"

text \<open>\<^verbatim>\<open>get_queue\<close>: \<^verbatim>\<open>self.tasks[group]\<close> raises \<^verbatim>\<open>KeyError\<close> for a missing key.\<close>

definition get_queue :: "nat \<Rightarrow> string \<Rightarrow> world \<Rightarrow> error + bool list" where
  "get_queue self grp w =
     (case dict_get (tasks (objs w ! self)) grp of
        None \<Rightarrow> Inl (KeyError grp)
      | Some hs \<Rightarrow> Inr (map (\<lambda>i. done_f (futures w ! i)) hs))"

section \<open>What other threads do\<close>

text \<open>The calls that any thread, or the executor, may make on the shared state. Each is
  atomic here; a call that raises keeps the part of its effect that came before.\<close>

datatype level = Info | Time | Warn | Critical | Debug

datatype event =
    Submit nat outcome string
  | Complete nat callctx
  | Reconfigure nat args
  | Construct args
  | Log nat level string callctx
  | Clear_logs nat
  | Get_queue nat string

fun log_at :: "level \<Rightarrow> nat \<Rightarrow> string \<Rightarrow> callctx \<Rightarrow> world \<Rightarrow> world" where
  "log_at Info = info"
| "log_at Time = time"
| "log_at Warn = warn"
| "log_at Critical = critical"
| "log_at Debug = debug"

fun apply_event :: "event \<Rightarrow> world \<Rightarrow> world" where
  "apply_event (Submit self fn grp) w = snd (submit self fn grp w)"
| "apply_event (Complete h ctx) w = complete h ctx w"
| "apply_event (Reconfigure self a) w = snd (reconfigure self a w)"
| "apply_event (Construct a) w = snd (construct a w)"
| "apply_event (Log self lvl content ctx) w = log_at lvl self content ctx w"
| "apply_event (Clear_logs self) w = snd (clear_logs self w)"
| "apply_event (Get_queue self grp) w = w"

definition run :: "event list \<Rightarrow> world \<Rightarrow> world" where
  "run evs w = foldl (\<lambda>w ev. apply_event ev w) w evs"

section \<open>Waiting for a group\<close>

text \<open>\<^verbatim>\<open>time.sleep(0.05)\<close>: fifty milliseconds pass.\<close>

definition sleep50 :: "world \<Rightarrow> world" where
  "sleep50 w = w\<lparr>slept := slept w + 50\<rparr>"

text \<open>The polling loop of \<^verbatim>\<open>wait\<close>. The schedule lists, for each sleep, what the other
  threads do meanwhile; when it is used up nothing changes any more, and a loop that
  still sees an unfinished future spins forever: the result is \<open>None\<close>. Inside the loop
  \<^verbatim>\<open>self.tasks[group]\<close> raises when the key has gone.\<close>

fun wait_loop :: "nat \<Rightarrow> string \<Rightarrow> event list list \<Rightarrow> world \<Rightarrow> ((error + unit) \<times> world) option" where
  "wait_loop self grp sched w =
     (case dict_get (tasks (objs w ! self)) grp of
        None \<Rightarrow> Some (Inl (KeyError grp), w)
      | Some hs \<Rightarrow>
          (let queue = map (\<lambda>i. done_f (futures w ! i)) hs in
           if False \<in> set queue then
             (case sched of
                [] \<Rightarrow> None
              | evs # rest \<Rightarrow> wait_loop self grp rest (run evs (sleep50 w)))
           else Some (Inr (), w)))"

declare wait_loop.simps [simp del]

definition wait :: "nat \<Rightarrow> string \<Rightarrow> event list list \<Rightarrow> world \<Rightarrow> ((error + unit) \<times> world) option" where
  "wait self grp sched w =
     (if dict_get (tasks (objs w ! self)) grp = None then Some (Inr (), w)
      else wait_loop self grp sched w)"

section \<open>The legacy module\<close>

text \<open>\<^verbatim>\<open>src/log.py\<close> keeps an older \<^verbatim>\<open>ControlThreads\<close>, with the same \<^verbatim>\<open>log_file\<close> attribute and
  the same \<^verbatim>\<open>clear_logs\<close>, and one more method, \<^verbatim>\<open>finishLog\<close>. The class of the package,
  \<^verbatim>\<open>src/logpool/log.py\<close>, names \<^verbatim>\<open>finishLog\<close> in its docstring and does not define it.

  An f-string renders \<^verbatim>\<open>None\<close> as the text \<^verbatim>\<open>None\<close>.\<close>

definition fstr_path :: "string option \<Rightarrow> string" where
  "fstr_path p = (case p of None \<Rightarrow> ''None'' | Some s \<Rightarrow> s)"

text \<open>The command line \<^verbatim>\<open>f'cp {self.log_file} {filename}'\<close>: the two paths are interpolated as
  they are, without quoting.\<close>

definition cp_command :: "string option \<Rightarrow> string \<Rightarrow> string" where
  "cp_command self_log_file filename = ''cp '' @ fstr_path self_log_file @ '' '' @ filename"

text \<open>\<^verbatim>\<open>clear_logs\<close> of the legacy class, on its \<^verbatim>\<open>log_file\<close> attribute.\<close>

definition legacy_clear_logs :: "string option \<Rightarrow> fs \<Rightarrow> (error + unit) \<times> fs" where
  "legacy_clear_logs self_log_file fs =
     (case self_log_file of
        None \<Rightarrow> (Inl (TypeError ''expected str, bytes or os.PathLike object, not NoneType''), fs)
      | Some p \<Rightarrow> (Inr (), fs_truncate p fs))"

text \<open>\<^verbatim>\<open>finishLog(self, filename)\<close>: \<^verbatim>\<open>os.system\<close> runs the command line through the shell, and
  the method goes on to \<^verbatim>\<open>clear_logs\<close> whatever status comes back. What the shell and \<^verbatim>\<open>cp\<close>
  make of a command line is not the module's: \<open>system\<close> gives, for a command line and a
  file system, the status returned and the file system left behind.\<close>

definition finishLog ::
  "(string \<Rightarrow> fs \<Rightarrow> int \<times> fs) \<Rightarrow> string option \<Rightarrow> string \<Rightarrow> fs \<Rightarrow> (error + unit) \<times> fs" where
  "finishLog system self_log_file filename fs =
     (let (status, fs1) = system (cp_command self_log_file filename) fs
      in legacy_clear_logs self_log_file fs1)"

text \<open>A command that fails and changes nothing; \<^verbatim>\<open>os.system\<close> then returns the exit status
  1 encoded as 256.\<close>

definition failing_command :: "string \<Rightarrow> fs \<Rightarrow> int \<times> fs" where
  "failing_command cmd fs = (256, fs)"

section \<open>Notions used in the statements\<close>

text \<open>The line \<^verbatim>\<open>wlog\<close> builds, as a function of the object and the call.\<close>

definition log_line :: "ControlThreads \<Rightarrow> string \<Rightarrow> string \<Rightarrow> callctx \<Rightarrow> string" where
  "log_line obj content tipo ctx =
     (if tipo = ''[critical]'' then
        now ctx @ ''  '' @ tipo @ '' - Thread '' @ str_nat (native_id ctx) @ '' - '' @ content
      else if tipo = ''[time]'' then now ctx @ ''  '' @ tipo @ '' - '' @ content
      else if truthy (simple_log obj) then tipo @ '' - '' @ content
      else now ctx @ ''  '' @ tipo @ '' - '' @ basename (co_filename (caller ctx)) @ '' - ''
             @ co_name (caller ctx) @ ''() - '' @ content)"

text \<open>One bracketed frame of a failure report, from its position and its traceback link.\<close>

definition trace_item :: "nat \<times> tb \<Rightarrow> string" where
  "trace_item p =
     ''[Trace '' @ str_nat (fst p) @ '': '' @ co_filename (f_code (snd p)) @ '' - ''
       @ co_name (f_code (snd p)) @ ''() - line '' @ str_nat (tb_lineno (snd p)) @ '']''"

definition entry_of :: "tb \<Rightarrow> string \<times> string \<times> nat" where
  "entry_of t = (co_filename (f_code t), co_name (f_code t), tb_lineno t)"

text \<open>The text the hook hands to \<^verbatim>\<open>critical\<close>: type name, message, then the frames in the
  order of the traceback chain.\<close>

definition failure_report :: "exn \<Rightarrow> string" where
  "failure_report e =
     type_name e @ '': '' @ str_of e @ '' -> ''
       @ concat (map trace_item (enumerate 0 (traceback e)))"

text \<open>An object whose executor takes new work: neither broken nor shut down.\<close>

definition accepts :: "nat \<Rightarrow> world \<Rightarrow> bool" where
  "accepts self w =
     (\<not> broken (executors w ! executor (objs w ! self))
      \<and> \<not> is_shutdown (executors w ! executor (objs w ! self)))"

text \<open>The state of a waiting thread after it has slept through the given part of the
  schedule, and whether a poll of a group in a state finds an unfinished future.\<close>

fun rounds :: "event list list \<Rightarrow> world \<Rightarrow> world" where
  "rounds [] w = w"
| "rounds (evs # rest) w = rounds rest (run evs (sleep50 w))"

definition unfinished :: "nat \<Rightarrow> string \<Rightarrow> world \<Rightarrow> bool" where
  "unfinished self grp w =
     (case dict_get (tasks (objs w ! self)) grp of
        None \<Rightarrow> False
      | Some hs \<Rightarrow> False \<in> set (map (\<lambda>i. done_f (futures w ! i)) hs))"

text \<open>Events that submit to a given group of a given object, and events that reconfigure it.\<close>

fun submits_to :: "nat \<Rightarrow> string \<Rightarrow> event \<Rightarrow> bool" where
  "submits_to self grp (Submit s fn g) = (s = self \<and> g = grp)"
| "submits_to self grp _ = False"

fun reconfigures :: "nat \<Rightarrow> event \<Rightarrow> bool" where
  "reconfigures self (Reconfigure s a) = (s = self)"
| "reconfigures self _ = False"

text \<open>A call context and exceptions used in the examples: the same \<^verbatim>\<open>ValueError("boom")\<close>
  raised by a task run by a worker thread and by a worker process.\<close>

definition ctx0 :: callctx where
  "ctx0 = \<lparr>now = ''04/11/2026 09:30:00'',
           caller = \<lparr>co_filename = ''/home/u/bar.py'', co_name = ''foo''\<rparr>,
           native_id = 4711\<rparr>"

definition boom :: exn where
  "boom = Exn ''ValueError'' ''boom''
     [\<lparr>f_code = \<lparr>co_filename = ''/opt/python/lib/python3.11/concurrent/futures/thread.py'',
                 co_name = ''run''\<rparr>,
       tb_lineno = 58\<rparr>,
      \<lparr>f_code = \<lparr>co_filename = ''/home/u/bar.py'', co_name = ''task''\<rparr>, tb_lineno = 12\<rparr>]
     Crosses"

definition boom_worker :: exn where
  "boom_worker = Exn ''ValueError'' ''boom''
     [\<lparr>f_code = \<lparr>co_filename = ''/opt/python/lib/python3.11/concurrent/futures/process.py'',
                 co_name = ''_process_worker''\<rparr>,
       tb_lineno = 261\<rparr>,
      \<lparr>f_code = \<lparr>co_filename = ''/home/u/bar.py'', co_name = ''task''\<rparr>, tb_lineno = 12\<rparr>]
     Crosses"

text \<open>The freshly loaded module on a host with eight logical CPUs, after one
  \<^verbatim>\<open>control.submit(fn)\<close>: future 0 is pending in group \<^verbatim>\<open>"default"\<close>.\<close>

definition one_pending :: world where
  "one_pending = snd (submit control (Returned 4) ''default'' (snd (load_module 8)))"

text \<open>Two submissions to \<^verbatim>\<open>"default"\<close> on the freshly loaded module, a schedule in which
  both futures finish during the first two sleeps, and the state the wait ends in.\<close>

definition two_tasks :: world where
  "two_tasks = run [Submit control (Returned 4) ''default'', Submit control (Returned 5) ''default''] (snd (load_module 8))"

definition sched0 :: "event list list" where
  "sched0 = [[Complete 1 ctx0], [Complete 0 ctx0, Submit control (Returned 6) ''jobs'']]"

definition two_done :: world where
  "two_done =
     \<lparr>objs = [\<lparr>tasks = [(''default'', [0, 1]), (''jobs'', [2])], log_file = None, workers = 6,
               print_log = True,
               debug_mode = True, use_process_pool = False, simple_log = [False], callback = None,
               keep_in_memory = False, memory = [], executor = 0\<rparr>],
      executors = [\<lparr>process_pool = False, max_workers = 6, is_shutdown = False, broken = False\<rparr>],
      futures = [\<lparr>task = Returned 4, pool = 0, state = Some (Returned 4), hooked = True\<rparr>,
                 \<lparr>task = Returned 5, pool = 0, state = Some (Returned 5), hooked = True\<rparr>,
                 \<lparr>task = Returned 6, pool = 0, state = None, hooked = True\<rparr>],
      console = [], files = [], cb_calls = [], slept = 100\<rparr>"

text \<open>The freshly loaded module after \<^verbatim>\<open>control.submit(fn)\<close> for an \<open>fn\<close> that raises
  \<^verbatim>\<open>ValueError("boom")\<close>.\<close>

definition one_failing :: world where
  "one_failing = snd (submit control (Raised boom) ''default'' (snd (load_module 8)))"

text \<open>A second object with a log file, a memory buffer and a callback of its own, created
  after the module is loaded, and a failing task submitted to it.\<close>

definition own_sinks :: args where
  "own_sinks = (default_args 8)\<lparr>a_log_file := Some ''run.log'', a_keep_in_memory := True,
                                 a_callback := Some 7\<rparr>"

definition failing_elsewhere :: world where
  "failing_elsewhere =
     snd (submit 1 (Raised boom) ''default'' (snd (construct own_sinks (snd (load_module 8)))))"

text \<open>A second object on a process pool, with two tasks submitted to it: the first raises
  \<^verbatim>\<open>ValueError("boom")\<close>, the second returns.\<close>

definition on_processes :: args where
  "on_processes = (default_args 8)\<lparr>a_use_process_pool := True\<rparr>"

definition failing_remote :: world where
  "failing_remote =
     run [Submit 1 (Raised boom_worker) ''default'', Submit 1 (Returned 4) ''default'']
       (snd (construct on_processes (snd (load_module 8))))"

text \<open>An exception that is pickled by its class and its \<^verbatim>\<open>args\<close> but whose constructor
  takes more arguments than \<^verbatim>\<open>args\<close> holds, so that the parent cannot rebuild it; and the
  same two tasks with this exception raised by the first.\<close>

definition job_error :: exn where
  "job_error = Exn ''JobError'' ''job 7 failed''
     [\<lparr>f_code = \<lparr>co_filename = ''/opt/python/lib/python3.11/concurrent/futures/process.py'',
                 co_name = ''_process_worker''\<rparr>,
       tb_lineno = 261\<rparr>,
      \<lparr>f_code = \<lparr>co_filename = ''/home/u/bar.py'', co_name = ''task''\<rparr>, tb_lineno = 12\<rparr>]
     Rebuilding_fails"

definition breaking_remote :: world where
  "breaking_remote =
     run [Submit 1 (Raised job_error) ''default'', Submit 1 (Returned 4) ''default'']
       (snd (construct on_processes (snd (load_module 8))))"

text \<open>A file system in which the legacy object's log file \<^verbatim>\<open>run.log\<close> holds one line.\<close>

definition one_line_log :: fs where
  "one_line_log =
     [(''run.log'', ''04/11/2026 09:30:00  [info] - bar.py - foo() - hello'' @ [CHR 0x0A])]"

section \<open>Basic facts\<close>

lemma dict_get_dict_set:
  "dict_get (dict_set k v d) k' = (if k' = k then Some v else dict_get d k')"
  by (induction d) auto

lemma length_upd_obj [simp]: "length (objs (upd_obj s f w)) = length (objs w)"
  by (simp add: upd_obj_def)

lemma upd_obj_frame [simp]:
  "futures (upd_obj s f w) = futures w" "console (upd_obj s f w) = console w"
  "files (upd_obj s f w) = files w" "cb_calls (upd_obj s f w) = cb_calls w"
  "slept (upd_obj s f w) = slept w" "executors (upd_obj s f w) = executors w"
  by (simp_all add: upd_obj_def)

lemma nth_upd_obj:
  "objs (upd_obj s f w) ! i = (if i = s \<and> s < length (objs w) then f (objs w ! s) else objs w ! i)"
  by (cases "s < length (objs w)") (auto simp: upd_obj_def nth_list_update not_less list_update_beyond)

lemma nth_upd_obj_other: "i \<noteq> s \<Longrightarrow> objs (upd_obj s f w) ! i = objs w ! i"
  by (simp add: nth_upd_obj)

subsection \<open>What \<^verbatim>\<open>wlog\<close> changes and what it leaves alone\<close>

lemma wlog_length_objs [simp]: "length (objs (wlog s c t p ctx w)) = length (objs w)"
  by (simp add: wlog_def Let_def split: option.splits)

lemma wlog_futures [simp]: "futures (wlog s c t p ctx w) = futures w"
  by (simp add: wlog_def Let_def split: option.splits)

lemma wlog_executors [simp]: "executors (wlog s c t p ctx w) = executors w"
  by (simp add: wlog_def Let_def split: option.splits)

lemma wlog_slept [simp]: "slept (wlog s c t p ctx w) = slept w"
  by (simp add: wlog_def Let_def split: option.splits)

lemma wlog_console:
  "console (wlog s c t p ctx w) = (if p then console w @ [log_line (objs w ! s) c t ctx] else console w)"
  by (simp add: wlog_def log_line_def Let_def split: option.splits)

lemma wlog_other_obj: "i \<noteq> s \<Longrightarrow> objs (wlog s c t p ctx w) ! i = objs w ! i"
  by (simp add: wlog_def Let_def nth_upd_obj split: option.splits)

lemma wlog_tasks [simp]: "tasks (objs (wlog s c t p ctx w) ! i) = tasks (objs w ! i)"
  by (simp add: wlog_def Let_def nth_upd_obj split: option.splits)

lemma wlog_executor [simp]: "executor (objs (wlog s c t p ctx w) ! i) = executor (objs w ! i)"
  by (simp add: wlog_def Let_def nth_upd_obj split: option.splits)

lemma wlog_files:
  "files (wlog s c t p ctx w) =
     (case log_file (objs w ! s) of None \<Rightarrow> files w
      | Some q \<Rightarrow> fs_append q (log_line (objs w ! s) c t ctx @ [CHR 0x0A]) (files w))"
  by (simp add: wlog_def log_line_def Let_def split: option.splits)

lemma wlog_cb_calls:
  "cb_calls (wlog s c t p ctx w) =
     (case callback (objs w ! s) of None \<Rightarrow> cb_calls w
      | Some cb \<Rightarrow> cb_calls w @ [(cb, log_line (objs w ! s) c t ctx)])"
  by (simp add: wlog_def log_line_def Let_def split: option.splits)

lemma wlog_memory:
  "s < length (objs w) \<Longrightarrow> memory (objs (wlog s c t p ctx w) ! s) =
     (if keep_in_memory (objs w ! s) then memory (objs w ! s) @ [log_line (objs w ! s) c t ctx]
      else memory (objs w ! s))"
  by (simp add: wlog_def log_line_def Let_def nth_upd_obj split: option.splits)

text \<open>The settings that decide where \<^verbatim>\<open>wlog\<close> writes are not changed by \<^verbatim>\<open>wlog\<close>.\<close>

lemma wlog_sinks [simp]:
  "log_file (objs (wlog s c t p ctx w) ! i) = log_file (objs w ! i)"
  "callback (objs (wlog s c t p ctx w) ! i) = callback (objs w ! i)"
  by (simp_all add: wlog_def Let_def nth_upd_obj split: option.splits)

subsection \<open>The hook and the completion of a future\<close>

lemma walk_tb_map: "walk_tb tbs acc = acc @ map entry_of tbs"
  by (induction tbs arbitrary: acc) (simp_all add: entry_of_def)

lemma trace_loop_concat:
  "trace_loop k (map entry_of tbs) acc = acc @ concat (map trace_item (enumerate k tbs))"
  by (induction tbs arbitrary: k acc) (simp_all add: entry_of_def trace_item_def)

lemma trace_str_eq:
  "trace_loop 0 (walk_tb tbs []) [] = concat (map trace_item (enumerate 0 tbs))"
  by (simp add: walk_tb_map trace_loop_concat)

lemma worker_callbacks_raised:
  "exception f = Some e \<Longrightarrow> worker_callbacks f ctx w = wlog control (failure_report e) ''[critical]'' True ctx w"
  by (simp add: worker_callbacks_def critical_def failure_report_def trace_str_eq)

lemma worker_callbacks_none:
  "exception f = None \<Longrightarrow> worker_callbacks f ctx w = w"
  by (simp add: worker_callbacks_def)

lemma worker_callbacks_frame [simp]:
  "length (objs (worker_callbacks f ctx w)) = length (objs w)"
  "futures (worker_callbacks f ctx w) = futures w"
  "executors (worker_callbacks f ctx w) = executors w"
  "slept (worker_callbacks f ctx w) = slept w"
  "tasks (objs (worker_callbacks f ctx w) ! i) = tasks (objs w ! i)"
  "executor (objs (worker_callbacks f ctx w) ! i) = executor (objs w ! i)"
  "log_file (objs (worker_callbacks f ctx w) ! i) = log_file (objs w ! i)"
  "callback (objs (worker_callbacks f ctx w) ! i) = callback (objs w ! i)"
proof -
  have "worker_callbacks f ctx w = w
        \<or> (\<exists>e. worker_callbacks f ctx w = wlog control (failure_report e) ''[critical]'' True ctx w)"
    by (cases "exception f") (auto simp: worker_callbacks_raised worker_callbacks_none)
  then show "length (objs (worker_callbacks f ctx w)) = length (objs w)"
    "futures (worker_callbacks f ctx w) = futures w"
    "executors (worker_callbacks f ctx w) = executors w"
    "slept (worker_callbacks f ctx w) = slept w"
    "tasks (objs (worker_callbacks f ctx w) ! i) = tasks (objs w ! i)"
    "executor (objs (worker_callbacks f ctx w) ! i) = executor (objs w ! i)"
    "log_file (objs (worker_callbacks f ctx w) ! i) = log_file (objs w ! i)"
    "callback (objs (worker_callbacks f ctx w) ! i) = callback (objs w ! i)"
    by auto
qed

lemma finish_futures:
  "futures (finish h out ctx w) = (futures w)[h := (futures w ! h)\<lparr>state := Some out\<rparr>]"
  by (simp add: finish_def Let_def)

lemma finish_frame [simp]:
  "length (objs (finish h out ctx w)) = length (objs w)"
  "length (futures (finish h out ctx w)) = length (futures w)"
  "executors (finish h out ctx w) = executors w"
  "slept (finish h out ctx w) = slept w"
  "tasks (objs (finish h out ctx w) ! i) = tasks (objs w ! i)"
  "executor (objs (finish h out ctx w) ! i) = executor (objs w ! i)"
  "log_file (objs (finish h out ctx w) ! i) = log_file (objs w ! i)"
  "callback (objs (finish h out ctx w) ! i) = callback (objs w ! i)"
  by (simp_all add: finish_def Let_def)

lemma fail_all_frame [simp]:
  "length (objs (fail_all is ctx w)) = length (objs w)"
  "length (futures (fail_all is ctx w)) = length (futures w)"
  "executors (fail_all is ctx w) = executors w"
  "slept (fail_all is ctx w) = slept w"
  "tasks (objs (fail_all is ctx w) ! i) = tasks (objs w ! i)"
  "executor (objs (fail_all is ctx w) ! i) = executor (objs w ! i)"
  "log_file (objs (fail_all is ctx w) ! i) = log_file (objs w ! i)"
  "callback (objs (fail_all is ctx w) ! i) = callback (objs w ! i)"
  by (induction "is" arbitrary: w) simp_all

lemma terminate_broken_frame [simp]:
  "length (objs (terminate_broken p ctx w)) = length (objs w)"
  "length (futures (terminate_broken p ctx w)) = length (futures w)"
  "slept (terminate_broken p ctx w) = slept w"
  "tasks (objs (terminate_broken p ctx w) ! i) = tasks (objs w ! i)"
  "executor (objs (terminate_broken p ctx w) ! i) = executor (objs w ! i)"
  "log_file (objs (terminate_broken p ctx w) ! i) = log_file (objs w ! i)"
  "callback (objs (terminate_broken p ctx w) ! i) = callback (objs w ! i)"
  by (simp_all add: terminate_broken_def Let_def)

lemma complete_frame [simp]:
  "length (objs (complete h ctx w)) = length (objs w)"
  "length (futures (complete h ctx w)) = length (futures w)"
  "slept (complete h ctx w) = slept w"
  "tasks (objs (complete h ctx w) ! i) = tasks (objs w ! i)"
  "executor (objs (complete h ctx w) ! i) = executor (objs w ! i)"
  "log_file (objs (complete h ctx w) ! i) = log_file (objs w ! i)"
  "callback (objs (complete h ctx w) ! i) = callback (objs w ! i)"
  by (simp_all add: complete_def split: option.splits)

text \<open>A future that finishes with what was received: the general case of a thread pool,
  and of a process pool whose worker's answer can be rebuilt.\<close>

lemma complete_received:
  assumes "h < length (futures w)" and "state (futures w ! h) = None"
    and "received w h = Some out"
  shows "complete h ctx w = finish h out ctx w"
  using assms by (simp add: complete_def)

lemma finish_raised:
  assumes "h < length (futures w)" and "hooked (futures w ! h)"
  shows "finish h (Raised e) ctx w =
           wlog control (failure_report e) ''[critical]'' True ctx
             (w\<lparr>futures := (futures w)[h := (futures w ! h)\<lparr>state := Some (Raised e)\<rparr>]\<rparr>)"
proof -
  have "exception ((futures w ! h)\<lparr>state := Some (Raised e)\<rparr>) = Some e"
    by (simp add: exception_def)
  then show ?thesis
    using assms by (simp add: finish_def Let_def worker_callbacks_raised)
qed

section \<open>Claims about construction and the log format\<close>

text \<open>
  Claim C1. \<^verbatim>\<open>submit\<close> schedules the work, appends the new future to the named group and
  returns that future to the caller.

  The first two parts hold; the third does not. On the freshly loaded module (a host with
  eight logical CPUs), \<^verbatim>\<open>control.submit(fn)\<close> creates future 0, pending and hooked, and
  appends it to \<^verbatim>\<open>"default"\<close>, but the value returned is \<^verbatim>\<open>None\<close>: the method has no \<^verbatim>\<open>return\<close>
  statement, although the class docstring's example reads \<^verbatim>\<open>future = control.submit(task, 2)\<close>
  followed by \<^verbatim>\<open>future.result()\<close>.
\<close>

theorem submit_returns_none:
  "fst (submit control (Returned 4) ''default'' (snd (load_module 8))) = Inr None
   \<and> futures (snd (submit control (Returned 4) ''default'' (snd (load_module 8))))
       = [\<lparr>task = Returned 4, pool = 0, state = None, hooked = True\<rparr>]
   \<and> tasks (objs (snd (submit control (Returned 4) ''default'' (snd (load_module 8)))) ! control)
       = [(''default'', [0])]"
  by (simp add: submit_def load_module_def construct_def default_args_def default_max_workers_def
      new_executor_def empty_world_def init_fields_def control_def upd_obj_def Let_def)

text \<open>Whatever the object, the work and the group, a \<^verbatim>\<open>submit\<close> that does not raise
  returns \<^verbatim>\<open>None\<close>.\<close>

lemma submit_value: "fst (submit self fn grp w) = Inr r \<Longrightarrow> r = None"
  by (auto simp: submit_def Let_def split: if_splits)

text \<open>
  Claim C2. With the simplified-format flag false (the default) a line at a level other
  than critical and time carries the caller's file basename and function name; only with
  the flag true does it reduce to tag and message.

  The module-level \<^verbatim>\<open>control\<close> is constructed with the flag at its default, false. Called
  from function \<^verbatim>\<open>foo\<close> of \<^verbatim>\<open>/home/u/bar.py\<close>, \<^verbatim>\<open>control.info("hello")\<close> nevertheless prints the
  simplified line: \<^verbatim>\<open>__init__\<close> stores the one-element tuple \<^verbatim>\<open>(simple_log,)\<close>, which is true
  whatever it holds.
\<close>

theorem simple_log_flag_ignored:
  "a_simple_log ((default_args 8)\<lparr>a_print_log := True, a_debug := True\<rparr>) = False
   \<and> console (info control ''hello'' ctx0 (snd (load_module 8))) = [''[info] - hello'']"
  by (simp add: info_def wlog_def load_module_def construct_def default_args_def default_max_workers_def
      new_executor_def empty_world_def init_fields_def control_def upd_obj_def Let_def truthy_def)

text \<open>The attribute is true after every construction.\<close>

lemma simple_log_truthy: "truthy (simple_log (init_fields a ex))"
  by (simp add: init_fields_def truthy_def)

text \<open>
  Claim C3. The formatted line is printed to the console if and only if the console-echo
  flag given at construction is true.

  An object constructed with \<^verbatim>\<open>print_log=False\<close> stores the flag, and \<^verbatim>\<open>info("hello")\<close> on it
  still prints: \<^verbatim>\<open>wlog\<close> tests its own parameter \<^verbatim>\<open>print_log\<close>, which no caller passes and which
  defaults to true, and never reads the attribute.
\<close>

theorem print_log_flag_ignored:
  "fst (construct ((default_args 8)\<lparr>a_print_log := False\<rparr>) empty_world) = Inr 0
   \<and> print_log (objs (snd (construct ((default_args 8)\<lparr>a_print_log := False\<rparr>) empty_world)) ! 0) = False
   \<and> console (info 0 ''hello'' ctx0 (snd (construct ((default_args 8)\<lparr>a_print_log := False\<rparr>) empty_world)))
       = [''[info] - hello'']"
  by (simp add: info_def wlog_def construct_def default_args_def default_max_workers_def
      new_executor_def empty_world_def init_fields_def upd_obj_def Let_def truthy_def)

text \<open>
  Claim C7. With no worker count given, the count defaults to the logical CPU count minus
  two, floored at 1, so that construction succeeds on every host.

  There is no floor. On a host with two logical CPUs the default is 0 and the executor
  refuses it, so construction (and with it the import of the module) raises.
\<close>

theorem no_floor_counterexample:
  "default_max_workers 2 = 0
   \<and> default_max_workers 2 \<noteq> max 1 (2 - 2)
   \<and> construct (default_args 2) empty_world
       = (Inl (ValueError ''max_workers must be greater than 0''), empty_world)"
  by (simp add: construct_def default_args_def default_max_workers_def new_executor_def)

text \<open>
  Claim C7, amended. The default worker count is the logical CPU count minus two, with no
  floor; construction with the defaults yields an object with that many workers when the
  host has at least three logical CPUs, and raises \<^verbatim>\<open>ValueError\<close> otherwise.
\<close>

theorem default_workers_no_floor:
  "a_max_workers (default_args cpu) = cpu - 2
   \<and> construct (default_args cpu) w =
       (if cpu \<le> 2 then (Inl (ValueError ''max_workers must be greater than 0''), w)
        else (Inr (length (objs w)),
              w\<lparr>objs := objs w @ [init_fields (default_args cpu) (length (executors w))],
                executors := executors w @
                  [\<lparr>process_pool = False, max_workers = cpu - 2, is_shutdown = False,
                    broken = False\<rparr>]\<rparr>))
   \<and> workers (init_fields (default_args cpu) ex) = cpu - 2"
  by (simp add: construct_def default_args_def default_max_workers_def new_executor_def init_fields_def)

section \<open>The group table under each call\<close>

lemma submit_length_objs [simp]: "length (objs (snd (submit s fn g w))) = length (objs w)"
  by (simp add: submit_def Let_def)

lemma submit_refused: "\<not> accepts s w \<Longrightarrow> snd (submit s fn g w) = w"
  by (auto simp: submit_def accepts_def Let_def)

lemma submit_executors [simp]: "executors (snd (submit s fn g w)) = executors w"
  by (simp add: submit_def Let_def)

lemma submit_executor [simp]:
  "executor (objs (snd (submit s fn g w)) ! i) = executor (objs w ! i)"
  by (simp add: submit_def Let_def nth_upd_obj)

lemma submit_other_obj: "i \<noteq> s \<Longrightarrow> objs (snd (submit s fn g w)) ! i = objs w ! i"
  by (simp add: submit_def Let_def nth_upd_obj)

lemma submit_futures:
  "futures (snd (submit s fn g w)) =
     (if accepts s w
      then futures w @ [\<lparr>task = fn, pool = executor (objs w ! s), state = None, hooked = True\<rparr>]
      else futures w)"
  by (simp add: submit_def accepts_def Let_def)

lemma submit_tasks_self:
  assumes "s < length (objs w)" and "accepts s w"
  shows "dict_get (tasks (objs (snd (submit s fn g w)) ! s)) g' =
           (if g' = g
            then Some ((case dict_get (tasks (objs w ! s)) g of None \<Rightarrow> [] | Some hs \<Rightarrow> hs)
                        @ [length (futures w)])
            else dict_get (tasks (objs w ! s)) g')"
  using assms
  by (cases "dict_get (tasks (objs w ! s)) g")
     (simp_all add: submit_def accepts_def Let_def nth_upd_obj dict_get_dict_set)

lemma submit_slept [simp]: "slept (snd (submit s fn g w)) = slept w"
  by (simp add: submit_def Let_def)

lemma reconfigure_length_objs [simp]: "length (objs (snd (reconfigure s a w))) = length (objs w)"
  by (simp add: reconfigure_def Let_def init_log_def split: sum.splits option.splits)

lemma reconfigure_other_obj: "i \<noteq> s \<Longrightarrow> objs (snd (reconfigure s a w)) ! i = objs w ! i"
  by (simp add: reconfigure_def Let_def init_log_def nth_upd_obj split: sum.splits option.splits)

lemma reconfigure_tasks_self:
  "s < length (objs w) \<Longrightarrow> tasks (objs (snd (reconfigure s a w)) ! s) = [(''default'', [])]"
  by (simp add: reconfigure_def Let_def init_log_def nth_upd_obj init_fields_def
      split: sum.splits option.splits)

lemma reconfigure_slept [simp]: "slept (snd (reconfigure s a w)) = slept w"
  by (simp add: reconfigure_def Let_def init_log_def split: sum.splits option.splits)

lemma reconfigure_futures [simp]: "futures (snd (reconfigure s a w)) = futures w"
  by (simp add: reconfigure_def Let_def init_log_def split: sum.splits option.splits)

lemma construct_objs:
  "objs (snd (construct a w)) = objs w \<or> (\<exists>ob. objs (snd (construct a w)) = objs w @ [ob])"
  by (simp add: construct_def Let_def init_log_def split: sum.splits option.splits)

lemma construct_old_obj: "i < length (objs w) \<Longrightarrow> objs (snd (construct a w)) ! i = objs w ! i"
  using construct_objs [of a w] by (auto simp: nth_append)

lemma construct_length_objs: "length (objs w) \<le> length (objs (snd (construct a w)))"
  using construct_objs [of a w] by auto

lemma construct_slept [simp]: "slept (snd (construct a w)) = slept w"
  by (simp add: construct_def Let_def init_log_def split: sum.splits option.splits)

lemma construct_futures [simp]: "futures (snd (construct a w)) = futures w"
  by (simp add: construct_def Let_def init_log_def split: sum.splits option.splits)

lemma clear_logs_frame [simp]:
  "objs (snd (clear_logs s w)) = objs w"
  "futures (snd (clear_logs s w)) = futures w"
  "slept (snd (clear_logs s w)) = slept w"
  by (simp_all add: clear_logs_def split: option.splits)

lemma log_at_frame [simp]:
  "length (objs (log_at lvl s c ctx w)) = length (objs w)"
  "futures (log_at lvl s c ctx w) = futures w"
  "slept (log_at lvl s c ctx w) = slept w"
  "tasks (objs (log_at lvl s c ctx w) ! i) = tasks (objs w ! i)"
  "executor (objs (log_at lvl s c ctx w) ! i) = executor (objs w ! i)"
  by (cases lvl; simp add: info_def time_def warn_def critical_def debug_def)+

lemma event_length_objs: "length (objs w) \<le> length (objs (apply_event ev w))"
  by (cases ev) (simp_all add: construct_length_objs)

lemma event_slept [simp]: "slept (apply_event ev w) = slept w"
  by (cases ev) simp_all

lemma run_slept [simp]: "slept (run evs w) = slept w"
  unfolding run_def by (induction evs arbitrary: w) simp_all

lemma run_length_objs: "length (objs w) \<le> length (objs (run evs w))"
  unfolding run_def
proof (induction evs arbitrary: w)
  case Nil
  show ?case by simp
next
  case (Cons ev evs)
  have "length (objs w) \<le> length (objs (apply_event ev w))" by (rule event_length_objs)
  also have "\<dots> \<le> length (objs (foldl (\<lambda>w ev. apply_event ev w) (apply_event ev w) evs))"
    by (rule Cons.IH)
  finally show ?case by simp
qed

text \<open>Under any call but a reconfiguration of the object itself, a group keeps its
  sequence as a prefix of the new one.\<close>

lemma event_tasks_grow:
  assumes "self < length (objs w)" and "\<not> reconfigures self ev"
    and "dict_get (tasks (objs w ! self)) g = Some hs"
  shows "\<exists>ext. dict_get (tasks (objs (apply_event ev w) ! self)) g = Some (hs @ ext)"
proof (cases ev)
  case (Submit s fn g')
  show ?thesis
  proof (cases "s = self \<and> accepts s w")
    case True
    then have live: "accepts self w" and s: "s = self" by auto
    show ?thesis
      using assms(3) Submit s submit_tasks_self [OF assms(1) live, of fn g' g] by auto
  next
    case False
    then have "objs (snd (submit s fn g' w)) ! self = objs w ! self"
      by (cases "s = self") (simp_all add: submit_refused submit_other_obj)
    then show ?thesis using assms Submit by simp
  qed
next
  case (Reconfigure s a)
  then have "self \<noteq> s" using assms(2) by simp
  then show ?thesis using assms Reconfigure by (simp add: reconfigure_other_obj)
next
  case (Construct a)
  then show ?thesis using assms by (simp add: construct_old_obj)
qed (use assms in simp_all)

lemma run_tasks_grow:
  assumes "self < length (objs w)" and "\<forall>ev \<in> set evs. \<not> reconfigures self ev"
    and "dict_get (tasks (objs w ! self)) g = Some hs"
  shows "\<exists>ext. dict_get (tasks (objs (run evs w) ! self)) g = Some (hs @ ext)"
  using assms unfolding run_def
proof (induction evs arbitrary: w hs)
  case Nil
  then show ?case by simp
next
  case (Cons ev evs)
  from Cons.prems obtain e1 where e1: "dict_get (tasks (objs (apply_event ev w) ! self)) g = Some (hs @ e1)"
    using event_tasks_grow [of self w ev g hs] by auto
  have len: "self < length (objs (apply_event ev w))"
    using Cons.prems(1) event_length_objs [of w ev] by simp
  from Cons.IH [OF len _ e1] Cons.prems(2)
  obtain e2 where "dict_get (tasks (objs (foldl (\<lambda>w ev. apply_event ev w) (apply_event ev w) evs) ! self)) g
      = Some ((hs @ e1) @ e2)" by auto
  then show ?case by auto
qed

section \<open>Claims about groups and waiting\<close>

lemma event_tasks_absent:
  assumes "self < length (objs w)" and "\<not> submits_to self g ev" and "g \<noteq> ''default''"
    and "dict_get (tasks (objs w ! self)) g = None"
  shows "dict_get (tasks (objs (apply_event ev w) ! self)) g = None"
proof (cases ev)
  case (Submit s fn g')
  show ?thesis
  proof (cases "s = self \<and> accepts s w")
    case True
    then have live: "accepts self w" and s: "s = self" by auto
    from assms(2) Submit s have "g \<noteq> g'" by auto
    then show ?thesis
      using assms(4) Submit s submit_tasks_self [OF assms(1) live, of fn g' g] by auto
  next
    case False
    then have "objs (snd (submit s fn g' w)) ! self = objs w ! self"
      by (cases "s = self") (simp_all add: submit_refused submit_other_obj)
    then show ?thesis using assms Submit by simp
  qed
next
  case (Reconfigure s a)
  show ?thesis
  proof (cases "s = self")
    case True
    then show ?thesis using assms Reconfigure by (simp add: reconfigure_tasks_self)
  next
    case False
    then show ?thesis using assms Reconfigure by (simp add: reconfigure_other_obj)
  qed
next
  case (Construct a)
  then show ?thesis using assms by (simp add: construct_old_obj)
qed (use assms in simp_all)

lemma run_tasks_absent:
  assumes "self < length (objs w)" and "\<forall>ev \<in> set evs. \<not> submits_to self g ev"
    and "g \<noteq> ''default''" and "dict_get (tasks (objs w ! self)) g = None"
  shows "dict_get (tasks (objs (run evs w) ! self)) g = None"
  using assms unfolding run_def
proof (induction evs arbitrary: w)
  case Nil
  then show ?case by simp
next
  case (Cons ev evs)
  have a: "dict_get (tasks (objs (apply_event ev w) ! self)) g = None"
    using Cons.prems event_tasks_absent [of self w g ev] by simp
  have len: "self < length (objs (apply_event ev w))"
    using Cons.prems(1) event_length_objs [of w ev] by simp
  show ?case using Cons.IH [OF len _ Cons.prems(3) a] Cons.prems(2) by simp
qed

lemma construct_new_obj:
  assumes "construct a w = (Inr self, w1)"
  shows "self = length (objs w)" and "self < length (objs w1)"
    and "tasks (objs w1 ! self) = [(''default'', [])]"
  using assms
  by (auto simp: construct_def Let_def init_log_def init_fields_def nth_append
      split: sum.splits option.splits)

lemma wait_absent: "dict_get (tasks (objs w ! self)) g = None \<Longrightarrow> wait self g sched w = Some (Inr (), w)"
  by (simp add: wait_def)

lemma wait_empty_group:
  "dict_get (tasks (objs w ! self)) g = Some [] \<Longrightarrow> wait self g sched w = Some (Inr (), w)"
  by (simp add: wait_def wait_loop.simps)

text \<open>
  Claim C6. For every group name never submitted to, \<^verbatim>\<open>wait\<close> is a no-op that returns
  without error, while \<^verbatim>\<open>get_queue\<close> fails with a not-found condition.

  The group \<^verbatim>\<open>"default"\<close> is in the table from construction on. On the freshly loaded
  module nothing has been submitted, and \<^verbatim>\<open>get_queue("default")\<close> returns the empty list
  instead of failing.
\<close>

theorem default_group_counterexample:
  "futures (snd (load_module 8)) = []
   \<and> get_queue control ''default'' (snd (load_module 8)) = Inr []"
  by (simp add: get_queue_def load_module_def construct_def default_args_def default_max_workers_def
      new_executor_def empty_world_def init_fields_def control_def)

text \<open>
  Claim C6, amended. For every group name other than \<^verbatim>\<open>"default"\<close> that has not been
  submitted to on an object since its construction, whatever else any thread has done in
  between (submissions to other groups or objects, completions, logging, reconfiguration),
  \<^verbatim>\<open>wait\<close> returns at once without error and without changing anything, whatever the other
  threads would do next, while \<^verbatim>\<open>get_queue\<close> raises \<^verbatim>\<open>KeyError\<close>.
\<close>

theorem unknown_group_policy:
  assumes "construct a w0 = (Inr self, w1)"
    and "g \<noteq> ''default''"
    and "\<forall>ev \<in> set evs. \<not> submits_to self g ev"
  shows "wait self g sched (run evs w1) = Some (Inr (), run evs w1)
         \<and> get_queue self g (run evs w1) = Inl (KeyError g)"
proof -
  have len: "self < length (objs w1)" and t: "tasks (objs w1 ! self) = [(''default'', [])]"
    using construct_new_obj [OF assms(1)] by simp_all
  have "dict_get (tasks (objs w1 ! self)) g = None"
    using t assms(2) by simp
  then have absent: "dict_get (tasks (objs (run evs w1) ! self)) g = None"
    using run_tasks_absent [OF len assms(3) assms(2)] by simp
  show ?thesis using absent by (simp add: wait_absent get_queue_def)
qed

text \<open>An instance: a new object, one submission to another group and a reconfiguration;
  the group \<^verbatim>\<open>"jobs"\<close> was never used.\<close>

theorem unknown_group_policy_witness:
  "construct (default_args 8) empty_world = (Inr 0, snd (construct (default_args 8) empty_world))
   \<and> ''jobs'' \<noteq> ''default''
   \<and> list_all (\<lambda>ev. \<not> submits_to 0 ''jobs'' ev)
         [Submit 0 (Returned 4) ''other'', Reconfigure 0 (default_args 8)]
   \<and> wait 0 ''jobs'' [[Complete 0 ctx0]]
        (run [Submit 0 (Returned 4) ''other'', Reconfigure 0 (default_args 8)]
           (snd (construct (default_args 8) empty_world)))
       = Some (Inr (), run [Submit 0 (Returned 4) ''other'', Reconfigure 0 (default_args 8)]
           (snd (construct (default_args 8) empty_world)))
   \<and> get_queue 0 ''jobs''
        (run [Submit 0 (Returned 4) ''other'', Reconfigure 0 (default_args 8)]
           (snd (construct (default_args 8) empty_world)))
       = Inl (KeyError ''jobs'')"
proof -
  have c: "construct (default_args 8) empty_world = (Inr 0, snd (construct (default_args 8) empty_world))"
    by (simp add: construct_def default_args_def default_max_workers_def new_executor_def
        empty_world_def)
  have g: "''jobs'' \<noteq> ''default''" by simp
  have e: "\<forall>ev \<in> set [Submit 0 (Returned 4) ''other'', Reconfigure 0 (default_args 8)].
         \<not> submits_to 0 ''jobs'' ev" by simp
  show ?thesis
    using unknown_group_policy [OF c g e, of "[[Complete 0 ctx0]]"] c g e
    by (simp only: list_all_iff) blast
qed

lemma sleep50_frame [simp]:
  "objs (sleep50 w) = objs w" "futures (sleep50 w) = futures w"
  "slept (sleep50 w) = slept w + 50"
  by (simp_all add: sleep50_def)

lemma rounds_slept: "slept (rounds sched w) = slept w + 50 * length sched"
  by (induction sched arbitrary: w) simp_all

lemma rounds_length_objs: "length (objs w) \<le> length (objs (rounds sched w))"
proof (induction sched arbitrary: w)
  case Nil
  show ?case by simp
next
  case (Cons evs rest)
  have "length (objs w) \<le> length (objs (run evs (sleep50 w)))"
    using run_length_objs [of "sleep50 w" evs] by simp
  also have "\<dots> \<le> length (objs (rounds rest (run evs (sleep50 w))))" by (rule Cons.IH)
  finally show ?case by simp
qed

lemma rounds_tasks_grow:
  assumes "self < length (objs w)" and "\<forall>ev \<in> set (concat sched). \<not> reconfigures self ev"
    and "dict_get (tasks (objs w ! self)) g = Some hs"
  shows "\<exists>ext. dict_get (tasks (objs (rounds sched w) ! self)) g = Some (hs @ ext)"
  using assms
proof (induction sched arbitrary: w hs)
  case Nil
  then show ?case by simp
next
  case (Cons evs rest)
  define w2 where "w2 = run evs (sleep50 w)"
  have len: "self < length (objs w2)"
    using Cons.prems(1) run_length_objs [of "sleep50 w" evs] by (simp add: w2_def)
  have nr: "\<forall>ev \<in> set evs. \<not> reconfigures self ev"
    and nr': "\<forall>ev \<in> set (concat rest). \<not> reconfigures self ev"
    using Cons.prems(2) by auto
  have "\<exists>e1. dict_get (tasks (objs w2 ! self)) g = Some (hs @ e1)"
    unfolding w2_def by (rule run_tasks_grow) (use Cons.prems(1,3) nr in simp_all)
  then obtain e1 where t2: "dict_get (tasks (objs w2 ! self)) g = Some (hs @ e1)" by auto
  from Cons.IH [OF len nr' t2]
  obtain e2 where "dict_get (tasks (objs (rounds rest w2) ! self)) g = Some ((hs @ e1) @ e2)"
    by auto
  then show ?case by (auto simp: w2_def)
qed

text \<open>The loop returns after exactly as many sleeps as there were polls that found an
  unfinished future, in the state the schedule leads to, and the last poll found none.\<close>

lemma wait_loop_rounds:
  assumes "wait_loop self g sched w = Some (Inr (), w')"
  shows "\<exists>k\<le>length sched. w' = rounds (take k sched) w
           \<and> (\<forall>j<k. unfinished self g (rounds (take j sched) w))
           \<and> \<not> unfinished self g w'"
  using assms
proof (induction sched arbitrary: w)
  case Nil
  then have "w' = w" and "\<not> unfinished self g w"
    by (auto simp: wait_loop.simps [of self g "[]" w] unfinished_def Let_def
        split: option.splits if_splits)
  then show ?case by simp
next
  case (Cons evs rest)
  show ?case
  proof (cases "unfinished self g w")
    case False
    with Cons.prems have "w' = w"
      by (auto simp: wait_loop.simps [of self g "evs # rest" w] unfinished_def Let_def
          split: option.splits if_splits)
    with False have "w' = rounds (take 0 (evs # rest)) w
           \<and> (\<forall>j<0. unfinished self g (rounds (take j (evs # rest)) w))
           \<and> \<not> unfinished self g w'" by simp
    then show ?thesis by blast
  next
    case True
    define w2 where "w2 = run evs (sleep50 w)"
    from True Cons.prems have "wait_loop self g rest w2 = Some (Inr (), w')"
      by (auto simp: wait_loop.simps [of self g "evs # rest" w] unfinished_def Let_def w2_def
          split: option.splits if_splits)
    from Cons.IH [OF this] obtain k where k: "k \<le> length rest" "w' = rounds (take k rest) w2"
      "\<forall>j<k. unfinished self g (rounds (take j rest) w2)" "\<not> unfinished self g w'"
      by auto
    have "\<forall>j<Suc k. unfinished self g (rounds (take j (evs # rest)) w)"
    proof (intro allI impI)
      fix j assume "j < Suc k"
      then show "unfinished self g (rounds (take j (evs # rest)) w)"
        using True k(3) by (cases j) (simp_all add: w2_def)
    qed
    moreover have "w' = rounds (take (Suc k) (evs # rest)) w" using k(2) by (simp add: w2_def)
    moreover have "Suc k \<le> length (evs # rest)" using k(1) by simp
    ultimately show ?thesis using k(4) by blast
  qed
qed

lemma one_pending_eq:
  "one_pending =
     \<lparr>objs = [\<lparr>tasks = [(''default'', [0])], log_file = None, workers = 6, print_log = True,
               debug_mode = True, use_process_pool = False, simple_log = [False], callback = None,
               keep_in_memory = False, memory = [], executor = 0\<rparr>],
      executors = [\<lparr>process_pool = False, max_workers = 6, is_shutdown = False, broken = False\<rparr>],
      futures = [\<lparr>task = Returned 4, pool = 0, state = None, hooked = True\<rparr>],
      console = [], files = [], cb_calls = [], slept = 0\<rparr>"
  by (simp add: one_pending_def submit_def load_module_def construct_def default_args_def
      default_max_workers_def new_executor_def empty_world_def init_fields_def control_def
      upd_obj_def Let_def)



lemma two_tasks_eq:
  "two_tasks =
     \<lparr>objs = [\<lparr>tasks = [(''default'', [0, 1])], log_file = None, workers = 6, print_log = True,
               debug_mode = True, use_process_pool = False, simple_log = [False], callback = None,
               keep_in_memory = False, memory = [], executor = 0\<rparr>],
      executors = [\<lparr>process_pool = False, max_workers = 6, is_shutdown = False, broken = False\<rparr>],
      futures = [\<lparr>task = Returned 4, pool = 0, state = None, hooked = True\<rparr>,
                 \<lparr>task = Returned 5, pool = 0, state = None, hooked = True\<rparr>],
      console = [], files = [], cb_calls = [], slept = 0\<rparr>"
  by (simp add: two_tasks_def run_def submit_def load_module_def construct_def default_args_def
      default_max_workers_def new_executor_def empty_world_def init_fields_def control_def
      upd_obj_def Let_def)

lemma wait_two: "wait control ''default'' sched0 two_tasks = Some (Inr (), two_done)"
  by (simp add: two_tasks_eq two_done_def sched0_def wait_def wait_loop.simps run_def sleep50_def
      complete_def received_def finish_def worker_callbacks_def exception_def submit_def
      control_def done_f_def upd_obj_def Let_def)


section \<open>The invariant of the group table\<close>

lemma event_default_kept:
  assumes "self < length (objs w)" and "dict_get (tasks (objs w ! self)) ''default'' \<noteq> None"
  shows "dict_get (tasks (objs (apply_event ev w) ! self)) ''default'' \<noteq> None"
proof (cases "reconfigures self ev")
  case True
  then obtain a where "ev = Reconfigure self a" by (cases ev) auto
  then show ?thesis using assms(1) by (simp add: reconfigure_tasks_self)
next
  case False
  from assms(2) obtain hs where "dict_get (tasks (objs w ! self)) ''default'' = Some hs" by auto
  from event_tasks_grow [OF assms(1) False this] show ?thesis by auto
qed

lemma event_tasks_created:
  assumes "self < length (objs w)" and "dict_get (tasks (objs w ! self)) ''default'' \<noteq> None"
    and "dict_get (tasks (objs w ! self)) g = None"
  shows "dict_get (tasks (objs (apply_event ev w) ! self)) g =
           (if submits_to self g ev \<and> accepts self w
            then Some [length (futures w)] else None)"
proof (cases "submits_to self g ev")
  case False
  from assms(2,3) have "g \<noteq> ''default''" by auto
  from event_tasks_absent [OF assms(1) False this assms(3)] False show ?thesis by simp
next
  case True
  then obtain fn where ev: "ev = Submit self fn g" by (cases ev) auto
  show ?thesis
  proof (cases "accepts self w")
    case False
    then show ?thesis using ev assms(3) by (simp add: submit_refused)
  next
    case True
    from submit_tasks_self [OF assms(1) True, of fn g g] assms(3) ev True
    show ?thesis by simp
  qed
qed

lemma event_tasks_appended:
  assumes "self < length (objs w)" and "accepts self w"
    and "dict_get (tasks (objs w ! self)) g = Some hs"
  shows "dict_get (tasks (objs (apply_event (Submit self fn g) w) ! self)) g
           = Some (hs @ [length (futures w)])
         \<and> futures (apply_event (Submit self fn g) w)
           = futures w @ [\<lparr>task = fn, pool = executor (objs w ! self), state = None, hooked = True\<rparr>]"
  using submit_tasks_self [OF assms(1,2), of fn g g] assms(2,3) by (simp add: submit_futures)

text \<open>
  Claim C8. Invariant of the group table, preserved by every operation: \<^verbatim>\<open>"default"\<close> always
  exists; a group is created on the first submission to an unseen name; a group's sequence
  only grows (no operation removes entries) and its order is the order of submission.

  \<^verbatim>\<open>reconfigure\<close> is an operation that removes entries: it runs \<^verbatim>\<open>__init__\<close> again, which
  assigns a new table. With future 0 in \<^verbatim>\<open>"default"\<close>, the group is empty afterwards.
\<close>

theorem reconfigure_empties_counterexample:
  "dict_get (tasks (objs one_pending ! control)) ''default'' = Some [0]
   \<and> dict_get (tasks (objs (apply_event (Reconfigure control (default_args 8)) one_pending) ! control))
        ''default'' = Some []"
  by (simp add: one_pending_eq reconfigure_def control_def default_args_def default_max_workers_def
      new_executor_def init_fields_def upd_obj_def Let_def)

text \<open>
  Claim C8, amended. An object is constructed with the single, empty group \<^verbatim>\<open>"default"\<close>
  (\<open>construct_new_obj\<close>). From then on, for every call any thread or the executor makes
  (submission, completion with its hook, logging, clearing the log, construction of another
  object, reconfiguration) and every object:
  \<^item> the object stays in the store and its group \<^verbatim>\<open>"default"\<close> stays in the table;
  \<^item> a group that was absent is present afterwards exactly when the call is an accepted
    submission to that name on this object, and then holds the new future alone;
  \<^item> unless the call reconfigures the object, every group keeps its sequence as a prefix of
    the new one;
  \<^item> an accepted submission to an existing group appends the new future, the most recently
    created one, at the end of the sequence;
  \<^item> a reconfiguration resets the table to the single, empty group \<^verbatim>\<open>"default"\<close>.
\<close>

theorem group_table_invariant:
  assumes "self < length (objs w)"
    and "dict_get (tasks (objs w ! self)) ''default'' \<noteq> None"
  shows "self < length (objs (apply_event ev w))
       \<and> dict_get (tasks (objs (apply_event ev w) ! self)) ''default'' \<noteq> None
       \<and> (\<forall>g. dict_get (tasks (objs w ! self)) g = None \<longrightarrow>
             dict_get (tasks (objs (apply_event ev w) ! self)) g =
               (if submits_to self g ev \<and> accepts self w
                then Some [length (futures w)] else None))
       \<and> (\<not> reconfigures self ev \<longrightarrow>
            (\<forall>g hs. dict_get (tasks (objs w ! self)) g = Some hs \<longrightarrow>
               (\<exists>ext. dict_get (tasks (objs (apply_event ev w) ! self)) g = Some (hs @ ext))))
       \<and> (\<forall>g hs fn. ev = Submit self fn g \<and> accepts self w
              \<and> dict_get (tasks (objs w ! self)) g = Some hs \<longrightarrow>
             dict_get (tasks (objs (apply_event ev w) ! self)) g = Some (hs @ [length (futures w)])
             \<and> futures (apply_event ev w) = futures w @ [\<lparr>task = fn, pool = executor (objs w ! self), state = None, hooked = True\<rparr>])
       \<and> (reconfigures self ev \<longrightarrow> tasks (objs (apply_event ev w) ! self) = [(''default'', [])])"
proof (intro conjI allI impI)
  show "self < length (objs (apply_event ev w))"
    using assms(1) event_length_objs [of w ev] by simp
  show "dict_get (tasks (objs (apply_event ev w) ! self)) ''default'' \<noteq> None"
    by (rule event_default_kept [OF assms])
next
  fix g assume "dict_get (tasks (objs w ! self)) g = None"
  then show "dict_get (tasks (objs (apply_event ev w) ! self)) g =
               (if submits_to self g ev \<and> accepts self w
                then Some [length (futures w)] else None)"
    by (rule event_tasks_created [OF assms])
next
  fix g hs assume "\<not> reconfigures self ev" "dict_get (tasks (objs w ! self)) g = Some hs"
  then show "\<exists>ext. dict_get (tasks (objs (apply_event ev w) ! self)) g = Some (hs @ ext)"
    by (rule event_tasks_grow [OF assms(1)])
next
  fix g hs fn
  assume a: "ev = Submit self fn g \<and> accepts self w
              \<and> dict_get (tasks (objs w ! self)) g = Some hs"
  from a event_tasks_appended [OF assms(1), of g hs fn]
  show "dict_get (tasks (objs (apply_event ev w) ! self)) g = Some (hs @ [length (futures w)])"
    and "futures (apply_event ev w) = futures w @ [\<lparr>task = fn, pool = executor (objs w ! self), state = None, hooked = True\<rparr>]"
    by simp_all
next
  assume "reconfigures self ev"
  then obtain a where "ev = Reconfigure self a" by (cases ev) auto
  then show "tasks (objs (apply_event ev w) ! self) = [(''default'', [])]"
    using assms(1) by (simp add: reconfigure_tasks_self)
qed

text \<open>So along any sequence of calls the object keeps its \<^verbatim>\<open>"default"\<close> group.\<close>

lemma run_default_kept:
  assumes "self < length (objs w)" and "dict_get (tasks (objs w ! self)) ''default'' \<noteq> None"
  shows "self < length (objs (run evs w))
         \<and> dict_get (tasks (objs (run evs w) ! self)) ''default'' \<noteq> None"
  using assms unfolding run_def
proof (induction evs arbitrary: w)
  case Nil
  then show ?case by simp
next
  case (Cons ev evs)
  have len: "self < length (objs (apply_event ev w))"
    using Cons.prems(1) event_length_objs [of w ev] by simp
  have d: "dict_get (tasks (objs (apply_event ev w) ! self)) ''default'' \<noteq> None"
    by (rule event_default_kept [OF Cons.prems])
  from Cons.IH [OF len d] show ?case by simp
qed

text \<open>An instance: with future 0 in \<^verbatim>\<open>"default"\<close>, a submission to the unseen group \<^verbatim>\<open>"jobs"\<close>
  creates it with future 1, a submission to \<^verbatim>\<open>"default"\<close> appends future 1 after future 0,
  and a reconfiguration resets the table.\<close>

theorem group_table_invariant_witness:
  "control < length (objs one_pending)
   \<and> dict_get (tasks (objs one_pending ! control)) ''default'' \<noteq> None
   \<and> dict_get (tasks (objs one_pending ! control)) ''jobs'' = None
   \<and> dict_get (tasks (objs (apply_event (Submit control (Returned 5) ''jobs'') one_pending) ! control))
        ''jobs'' = Some [1]
   \<and> dict_get (tasks (objs one_pending ! control)) ''default'' = Some [0]
   \<and> dict_get (tasks (objs (apply_event (Submit control (Returned 5) ''default'') one_pending) ! control))
        ''default'' = Some [0, 1]
   \<and> tasks (objs (apply_event (Reconfigure control (default_args 8)) one_pending) ! control)
        = [(''default'', [])]"
proof -
  have l: "control < length (objs one_pending)" by (simp add: one_pending_eq control_def)
  have d: "dict_get (tasks (objs one_pending ! control)) ''default'' \<noteq> None"
    by (simp add: one_pending_eq control_def)
  have j: "dict_get (tasks (objs one_pending ! control)) ''jobs'' = None"
    by (simp add: one_pending_eq control_def)
  have d0: "dict_get (tasks (objs one_pending ! control)) ''default'' = Some [0]"
    by (simp add: one_pending_eq control_def)
  have live: "accepts control one_pending"
    by (simp add: accepts_def one_pending_eq control_def)
  have f: "length (futures one_pending) = 1" by (simp add: one_pending_eq)
  have 1: "dict_get (tasks (objs (apply_event (Submit control (Returned 5) ''jobs'') one_pending) ! control))
        ''jobs'' = Some [1]"
    using group_table_invariant [OF l d, of "Submit control (Returned 5) ''jobs''"] j live f by simp
  have 2: "dict_get (tasks (objs (apply_event (Submit control (Returned 5) ''default'') one_pending) ! control))
        ''default'' = Some [0, 1]"
    using group_table_invariant [OF l d, of "Submit control (Returned 5) ''default''"] d0 live f by simp
  have 3: "tasks (objs (apply_event (Reconfigure control (default_args 8)) one_pending) ! control)
        = [(''default'', [])]"
    using group_table_invariant [OF l d, of "Reconfigure control (default_args 8)"] by simp
  show ?thesis using l d j d0 1 2 3 by blast
qed

section \<open>Claims about failing tasks\<close>

lemma received_thread:
  "\<not> process_pool (executors w ! pool (futures w ! h)) \<Longrightarrow> received w h = Some (task (futures w ! h))"
  by (simp add: received_def Let_def)

lemma received_process:
  "process_pool (executors w ! pool (futures w ! h)) \<Longrightarrow> received w h = sent (task (futures w ! h))"
  by (simp add: received_def Let_def)

lemma submit_same_result:
  assumes "executors w' = executors w"
    and "\<And>i. executor (objs w' ! i) = executor (objs w ! i)"
  shows "fst (submit s fn g w') = fst (submit s fn g w)"
  using assms by (simp add: submit_def Let_def)

lemma str_nat_0: "str_nat 0 = ''0''"
  by code_simp

lemma str_nat_1: "str_nat (Suc 0) = ''1''"
  by code_simp

lemma str_nat_12: "str_nat 12 = ''12''"
  by code_simp

lemma str_nat_58: "str_nat 58 = ''58''"
  by code_simp

lemma str_nat_4711: "str_nat 4711 = ''4711''"
  by code_simp

lemmas str_nat_examples = str_nat_0 str_nat_1 str_nat_12 str_nat_58 str_nat_4711

lemma failing_remote_eq:
  "failing_remote =
     \<lparr>objs = [\<lparr>tasks = [(''default'', [])], log_file = None, workers = 6, print_log = True,
               debug_mode = True, use_process_pool = False, simple_log = [False], callback = None,
               keep_in_memory = False, memory = [], executor = 0\<rparr>,
              \<lparr>tasks = [(''default'', [0, 1])], log_file = None, workers = 6, print_log = True,
               debug_mode = False, use_process_pool = True, simple_log = [False], callback = None,
               keep_in_memory = False, memory = [], executor = 1\<rparr>],
      executors = [\<lparr>process_pool = False, max_workers = 6, is_shutdown = False, broken = False\<rparr>,
                   \<lparr>process_pool = True, max_workers = 6, is_shutdown = False, broken = False\<rparr>],
      futures = [\<lparr>task = Raised boom_worker, pool = 1, state = None, hooked = True\<rparr>,
                 \<lparr>task = Returned 4, pool = 1, state = None, hooked = True\<rparr>],
      console = [], files = [], cb_calls = [], slept = 0\<rparr>"
  by (simp add: failing_remote_def on_processes_def run_def submit_def load_module_def construct_def
      default_args_def default_max_workers_def new_executor_def empty_world_def init_fields_def
      upd_obj_def Let_def)

lemma breaking_remote_eq:
  "breaking_remote =
     \<lparr>objs = [\<lparr>tasks = [(''default'', [])], log_file = None, workers = 6, print_log = True,
               debug_mode = True, use_process_pool = False, simple_log = [False], callback = None,
               keep_in_memory = False, memory = [], executor = 0\<rparr>,
              \<lparr>tasks = [(''default'', [0, 1])], log_file = None, workers = 6, print_log = True,
               debug_mode = False, use_process_pool = True, simple_log = [False], callback = None,
               keep_in_memory = False, memory = [], executor = 1\<rparr>],
      executors = [\<lparr>process_pool = False, max_workers = 6, is_shutdown = False, broken = False\<rparr>,
                   \<lparr>process_pool = True, max_workers = 6, is_shutdown = False, broken = False\<rparr>],
      futures = [\<lparr>task = Raised job_error, pool = 1, state = None, hooked = True\<rparr>,
                 \<lparr>task = Returned 4, pool = 1, state = None, hooked = True\<rparr>],
      console = [], files = [], cb_calls = [], slept = 0\<rparr>"
  by (simp add: breaking_remote_def on_processes_def run_def submit_def load_module_def construct_def
      default_args_def default_max_workers_def new_executor_def empty_world_def init_fields_def
      upd_obj_def Let_def)



lemma one_failing_eq:
  "one_failing =
     \<lparr>objs = [\<lparr>tasks = [(''default'', [0])], log_file = None, workers = 6, print_log = True,
               debug_mode = True, use_process_pool = False, simple_log = [False], callback = None,
               keep_in_memory = False, memory = [], executor = 0\<rparr>],
      executors = [\<lparr>process_pool = False, max_workers = 6, is_shutdown = False, broken = False\<rparr>],
      futures = [\<lparr>task = Raised boom, pool = 0, state = None, hooked = True\<rparr>],
      console = [], files = [], cb_calls = [], slept = 0\<rparr>"
  by (simp add: one_failing_def submit_def load_module_def construct_def default_args_def
      default_max_workers_def new_executor_def empty_world_def init_fields_def control_def
      upd_obj_def Let_def)

lemma boom_report:
  "type_name boom = ''ValueError''" "str_of boom = ''boom''"
  "concat (map trace_item (enumerate 0 (traceback boom))) =
     ''[Trace 0: /opt/python/lib/python3.11/concurrent/futures/thread.py - run() - line 58][Trace 1: /home/u/bar.py - task() - line 12]''"
  by (simp_all add: boom_def trace_item_def str_nat_examples)


subsection \<open>Where the hook writes\<close>

lemma worker_callbacks_quiet:
  assumes "self \<noteq> control"
    and "log_file (objs w ! control) = None" and "callback (objs w ! control) = None"
  shows "objs (worker_callbacks f ctx w) ! self = objs w ! self"
    and "files (worker_callbacks f ctx w) = files w"
    and "cb_calls (worker_callbacks f ctx w) = cb_calls w"
proof -
  have "worker_callbacks f ctx w = w
        \<or> (\<exists>e. worker_callbacks f ctx w = wlog control (failure_report e) ''[critical]'' True ctx w)"
    by (cases "exception f") (auto simp: worker_callbacks_raised worker_callbacks_none)
  then show "objs (worker_callbacks f ctx w) ! self = objs w ! self"
    and "files (worker_callbacks f ctx w) = files w"
    and "cb_calls (worker_callbacks f ctx w) = cb_calls w"
    using assms by (auto simp: wlog_other_obj wlog_files wlog_cb_calls)
qed

lemma finish_quiet:
  assumes "self \<noteq> control"
    and "log_file (objs w ! control) = None" and "callback (objs w ! control) = None"
  shows "objs (finish h out ctx w) ! self = objs w ! self"
    and "files (finish h out ctx w) = files w"
    and "cb_calls (finish h out ctx w) = cb_calls w"
  using assms by (simp_all add: finish_def Let_def worker_callbacks_quiet)

lemma fail_all_quiet:
  assumes "self \<noteq> control"
    and "log_file (objs w ! control) = None" and "callback (objs w ! control) = None"
  shows "objs (fail_all is ctx w) ! self = objs w ! self
         \<and> files (fail_all is ctx w) = files w
         \<and> cb_calls (fail_all is ctx w) = cb_calls w"
  using assms
proof (induction "is" arbitrary: w)
  case Nil
  show ?case by simp
next
  case (Cons i rest)
  let ?w1 = "finish i (Raised bpe) ctx w"
  have l: "log_file (objs ?w1 ! control) = None" "callback (objs ?w1 ! control) = None"
    using Cons.prems(2,3) by simp_all
  from Cons.IH [OF Cons.prems(1) l] finish_quiet [OF Cons.prems, of i "Raised bpe" ctx]
  show ?case by simp
qed

lemma terminate_broken_quiet:
  assumes "self \<noteq> control"
    and "log_file (objs w ! control) = None" and "callback (objs w ! control) = None"
  shows "objs (terminate_broken p ctx w) ! self = objs w ! self
         \<and> files (terminate_broken p ctx w) = files w
         \<and> cb_calls (terminate_broken p ctx w) = cb_calls w"
proof -
  let ?w1 = "w\<lparr>executors :=
                  (executors w)[p := (executors w ! p)\<lparr>is_shutdown := True, broken := True\<rparr>]\<rparr>"
  have l: "log_file (objs ?w1 ! control) = None" "callback (objs ?w1 ! control) = None"
    using assms(2,3) by simp_all
  from fail_all_quiet [OF assms(1) l, of "pending_in p (futures ?w1) 0" ctx]
  show ?thesis by (simp add: terminate_broken_def Let_def)
qed

lemma failing_elsewhere_eq:
  "failing_elsewhere =
     \<lparr>objs = [\<lparr>tasks = [(''default'', [])], log_file = None, workers = 6, print_log = True,
               debug_mode = True, use_process_pool = False, simple_log = [False], callback = None,
               keep_in_memory = False, memory = [], executor = 0\<rparr>,
              \<lparr>tasks = [(''default'', [0])], log_file = Some ''run.log'', workers = 6,
               print_log = True,
               debug_mode = False, use_process_pool = False, simple_log = [False],
               callback = Some 7,
               keep_in_memory = True, memory = [], executor = 1\<rparr>],
      executors = [\<lparr>process_pool = False, max_workers = 6, is_shutdown = False, broken = False\<rparr>,
                   \<lparr>process_pool = False, max_workers = 6, is_shutdown = False, broken = False\<rparr>],
      futures = [\<lparr>task = Raised boom, pool = 1, state = None, hooked = True\<rparr>],
      console = [], files = [(''run.log'', [])], cb_calls = [], slept = 0\<rparr>"
  by (simp add: failing_elsewhere_def own_sinks_def submit_def load_module_def construct_def
      default_args_def default_max_workers_def new_executor_def empty_world_def init_fields_def
      init_log_def fs_append_def upd_obj_def Let_def)

text \<open>
  Claim C10. For every object and every task submitted through it whose function raises,
  the completion hook emits the critical trace through the module-level singleton
  \<^verbatim>\<open>control\<close> (constructed with no log file), not through the object; so for a separately
  constructed object with a log file of its own the trace never reaches that object's
  file, memory buffer or callback.

  While \<^verbatim>\<open>control\<close> has no log file and no callback, as constructed, the executor finishing
  with any future, on a thread pool or a process pool, leaves every other object as it
  was, its memory buffer included, changes no file and calls no callback. When the future
  is pending and hooked and receives an exception, finishing it is a call of
  \<^verbatim>\<open>control.critical\<close> with the failure report, and the one line goes to the console,
  rendered with the settings of \<^verbatim>\<open>control\<close>. On a thread pool the exception received is the
  one the function raised.
\<close>

theorem hook_logs_through_control:
  assumes "self \<noteq> control"
    and "log_file (objs w ! control) = None" and "callback (objs w ! control) = None"
  shows "objs (complete h ctx w) ! self = objs w ! self
       \<and> memory (objs (complete h ctx w) ! self) = memory (objs w ! self)
       \<and> files (complete h ctx w) = files w
       \<and> cb_calls (complete h ctx w) = cb_calls w
       \<and> (\<forall>e. h < length (futures w) \<and> state (futures w ! h) = None \<and> hooked (futures w ! h)
              \<and> received w h = Some (Raised e) \<longrightarrow>
            complete h ctx w =
              critical control (failure_report e) ctx
                (w\<lparr>futures := (futures w)[h := (futures w ! h)\<lparr>state := Some (Raised e)\<rparr>]\<rparr>)
            \<and> console (complete h ctx w) =
                console w @ [log_line (objs w ! control) (failure_report e) ''[critical]'' ctx])
       \<and> (\<forall>e. task (futures w ! h) = Raised e
              \<and> \<not> process_pool (executors w ! pool (futures w ! h)) \<longrightarrow>
            received w h = Some (Raised e))"
proof -
  have quiet: "objs (complete h ctx w) ! self = objs w ! self
       \<and> files (complete h ctx w) = files w \<and> cb_calls (complete h ctx w) = cb_calls w"
  proof (cases "h < length (futures w) \<and> state (futures w ! h) = None")
    case False
    then show ?thesis by (auto simp: complete_def)
  next
    case True
    show ?thesis
    proof (cases "received w h")
      case None
      with True have "complete h ctx w = terminate_broken (pool (futures w ! h)) ctx w"
        by (simp add: complete_def)
      with terminate_broken_quiet [OF assms] show ?thesis by simp
    next
      case (Some out)
      with True have "complete h ctx w = finish h out ctx w" by (simp add: complete_def)
      with finish_quiet [OF assms] show ?thesis by simp
    qed
  qed
  have line: "complete h ctx w =
              critical control (failure_report e) ctx
                (w\<lparr>futures := (futures w)[h := (futures w ! h)\<lparr>state := Some (Raised e)\<rparr>]\<rparr>)
            \<and> console (complete h ctx w) =
                console w @ [log_line (objs w ! control) (failure_report e) ''[critical]'' ctx]"
    if "h < length (futures w) \<and> state (futures w ! h) = None \<and> hooked (futures w ! h)
        \<and> received w h = Some (Raised e)" for e
  proof -
    from that have c: "complete h ctx w = finish h (Raised e) ctx w"
      by (simp add: complete_received)
    from that have f: "finish h (Raised e) ctx w =
             wlog control (failure_report e) ''[critical]'' True ctx
               (w\<lparr>futures := (futures w)[h := (futures w ! h)\<lparr>state := Some (Raised e)\<rparr>]\<rparr>)"
      by (simp add: finish_raised)
    show ?thesis by (simp add: c f critical_def wlog_console)
  qed
  have thread: "received w h = Some (Raised e)"
    if "task (futures w ! h) = Raised e
        \<and> \<not> process_pool (executors w ! pool (futures w ! h))" for e
    using that by (simp add: received_thread)
  from quiet have mem: "memory (objs (complete h ctx w) ! self) = memory (objs w ! self)"
    by simp
  show ?thesis
    using quiet mem line thread by blast
qed

text \<open>An instance: object 1 has the log file \<^verbatim>\<open>run.log\<close>, keeps messages in memory and has
  callback 7; the failing future 0 is in its \<^verbatim>\<open>"default"\<close> group, on its thread pool. After
  the hook has run its log file is still empty, its memory is empty and its callback was
  not called, while the console has the one line.\<close>

theorem hook_logs_through_control_witness:
  "1 \<noteq> control
   \<and> log_file (objs failing_elsewhere ! control) = None
   \<and> callback (objs failing_elsewhere ! control) = None
   \<and> 0 < length (futures failing_elsewhere) \<and> state (futures failing_elsewhere ! 0) = None
   \<and> hooked (futures failing_elsewhere ! 0) \<and> task (futures failing_elsewhere ! 0) = Raised boom
   \<and> \<not> process_pool (executors failing_elsewhere ! pool (futures failing_elsewhere ! 0))
   \<and> dict_get (tasks (objs failing_elsewhere ! 1)) ''default'' = Some [0]
   \<and> log_file (objs failing_elsewhere ! 1) = Some ''run.log''
   \<and> keep_in_memory (objs failing_elsewhere ! 1)
   \<and> callback (objs failing_elsewhere ! 1) = Some 7
   \<and> memory (objs (complete 0 ctx0 failing_elsewhere) ! 1) = []
   \<and> files (complete 0 ctx0 failing_elsewhere) = [(''run.log'', [])]
   \<and> cb_calls (complete 0 ctx0 failing_elsewhere) = []
   \<and> console (complete 0 ctx0 failing_elsewhere)
       = [log_line (objs failing_elsewhere ! control) (failure_report boom) ''[critical]'' ctx0]"
proof -
  have h: "0 < length (futures failing_elsewhere)" "state (futures failing_elsewhere ! 0) = None"
    "hooked (futures failing_elsewhere ! 0)" "task (futures failing_elsewhere ! 0) = Raised boom"
    "\<not> process_pool (executors failing_elsewhere ! pool (futures failing_elsewhere ! 0))"
    by (simp_all add: failing_elsewhere_eq)
  have n: "1 \<noteq> control" by (simp add: control_def)
  have l: "log_file (objs failing_elsewhere ! control) = None"
    "callback (objs failing_elsewhere ! control) = None"
    by (simp_all add: failing_elsewhere_eq control_def)
  have i: "dict_get (tasks (objs failing_elsewhere ! 1)) ''default'' = Some [0]"
    "log_file (objs failing_elsewhere ! 1) = Some ''run.log''"
    "keep_in_memory (objs failing_elsewhere ! 1)"
    "callback (objs failing_elsewhere ! 1) = Some 7"
    "memory (objs failing_elsewhere ! 1) = []"
    "files failing_elsewhere = [(''run.log'', [])]"
    "cb_calls failing_elsewhere = []" "console failing_elsewhere = []"
    by (simp_all add: failing_elsewhere_eq)
  have r: "received failing_elsewhere 0 = Some (Raised boom)"
    using hook_logs_through_control [OF n l, of 0 ctx0] h by blast
  have "memory (objs (complete 0 ctx0 failing_elsewhere) ! 1) = memory (objs failing_elsewhere ! 1)
      \<and> files (complete 0 ctx0 failing_elsewhere) = files failing_elsewhere
      \<and> cb_calls (complete 0 ctx0 failing_elsewhere) = cb_calls failing_elsewhere
      \<and> console (complete 0 ctx0 failing_elsewhere)
         = console failing_elsewhere
           @ [log_line (objs failing_elsewhere ! control) (failure_report boom) ''[critical]'' ctx0]"
    using hook_logs_through_control [OF n l, of 0 ctx0] h r by blast
  then show ?thesis using h n l i by simp
qed

section \<open>Claims about the legacy module\<close>

text \<open>Whatever command fails without changing the file system, whatever status it
  returns, \<^verbatim>\<open>finishLog\<close> then empties the log file.\<close>

lemma finishLog_after_failed_cp:
  "system (cp_command (Some p) filename) fs = (status, fs)
   \<Longrightarrow> finishLog system (Some p) filename fs = (Inr (), fs_truncate p fs)"
  by (simp add: finishLog_def legacy_clear_logs_def)

text \<open>
  Claim C9. When a log file is configured, \<^verbatim>\<open>finishLog(destination_path)\<close> copies the log
  file's contents to the destination and then clears the log file, so that afterwards the
  destination holds the log's prior contents and the live log file is empty.

  The class of the package documents \<^verbatim>\<open>finishLog\<close> and does not define it. The method of the
  legacy module interpolates the two paths unquoted into a shell command, does not look at
  the status \<^verbatim>\<open>os.system\<close> returns, and clears the log in every case. With the destination
  \<^verbatim>\<open>old log.txt\<close> the command line is \<^verbatim>\<open>cp run.log old log.txt\<close>, three operands of which the
  last is no directory: \<^verbatim>\<open>cp\<close> fails and copies nothing. Afterwards the log file is empty
  and its one line is in no file.
\<close>

theorem finishLog_loses_log:
  "cp_command (Some ''run.log'') ''old log.txt'' = ''cp run.log old log.txt''
   \<and> dict_get one_line_log ''run.log''
        = Some (''04/11/2026 09:30:00  [info] - bar.py - foo() - hello'' @ [CHR 0x0A])
   \<and> finishLog failing_command (Some ''run.log'') ''old log.txt'' one_line_log
        = (Inr (), [(''run.log'', [])])"
  by (simp add: cp_command_def fstr_path_def one_line_log_def finishLog_def failing_command_def
      legacy_clear_logs_def fs_truncate_def)

end
